theory Spec2Isabelle
  imports Main
begin

section \<open>The authorization guard of nestjs-bff\<close>

text \<open>
  A shallow embedding of \<^verbatim>\<open>AuthorizationGuard\<close>
  (\<^verbatim>\<open>packages/backend/src/host/http/core/guards/authorization.guard.ts\<close>).
  The guard is one asynchronous method whose awaits are strictly sequential, so it is
  modelled as a sequential function. Its collaborators are injected through the
  constructor; they are the fields of the record \<open>guard\<close> below. Every call to a
  collaborator is written to a list of events, in program order, so that "was never
  invoked" is a statement about that list. An exception is a value \<open>Inl e\<close>.
\<close>

subsection \<open>Values\<close>

datatype error =
    BadGatewayHttpError string
  | TypeError string
  | Thrown string

text \<open>The object literal handed to \<^verbatim>\<open>isAuthorized\<close> (lines 84 to 88).\<close>

record 'a authcheck_params =
  requestingEntity :: 'a
  orgIdForTargetResource :: "string option"
  userIdForTargetResource :: "string option"

text \<open>
  An \<^verbatim>\<open>AuthCheckContract\<close>: an object with a constructor name (read at line 90) and
  the method \<^verbatim>\<open>isAuthorized\<close>, whose promise resolves to a boolean or rejects.
\<close>

record 'a authcheck =
  constructor_name :: string
  isAuthorized :: "'a authcheck_params \<Rightarrow> error + bool"

text \<open>
  What the metadata lookup and the cache can hand back. The reflector returns
  \<^verbatim>\<open>undefined\<close> where no metadata is attached; the type argument of
  \<^verbatim>\<open>cacheStore.wrap\<close> (line 139) also admits \<^verbatim>\<open>null\<close> and a single contract
  that is not an array.
\<close>

datatype 'a authchecks =
    Undefined
  | Null
  | Checks "'a authcheck list"
  | SingleCheck "'a authcheck"

text \<open>JavaScript truthiness: an array is truthy even when it is empty.\<close>

fun truthy :: "'a authchecks \<Rightarrow> bool" where
  "truthy Undefined = False"
| "truthy Null = False"
| "truthy (Checks cs) = True"
| "truthy (SingleCheck c) = True"

text \<open>
  A class or a handler function: its identity, and the text that string interpolation
  (\<^verbatim>\<open>Function.prototype.toString\<close>) gives for it in the cache key of line 137.
\<close>

record target =
  fn_id :: nat
  fn_source :: string

record organization =
  organization_id :: string

record 'a request =
  originalUrl :: string
  authorization :: "'a option"
  params :: "string \<rightharpoonup> string"

record 'a execution_context =
  getRequest :: "'a request option"
  getClass :: target
  getHandler :: target

text \<open>
  The injected collaborators that are read: the reflector, the organization repository
  and the configured public-route pattern. The regular expression itself is
  configuration outside these sources, so its \<^verbatim>\<open>test\<close> is a parameter.
\<close>

record 'a guard =
  reflector_get :: "string \<Rightarrow> target \<Rightarrow> error + 'a authchecks"
  organizationCache_findOne :: "string \<Rightarrow> error + organization option"
  publicRouteRegex_test :: "string \<Rightarrow> bool"

datatype level = TraceLevel | DebugLevel | WarnLevel | ErrorLevel

datatype 'a event =
    Log level string
  | FindOne string
  | Wrap string nat
  | ReflectorGet string target
  | IsAuthorized string "'a authcheck_params"

subsection \<open>The cache store\<close>

text \<open>An entry is a value with the time, in seconds, at which it expires.\<close>

type_synonym 'v cache_store = "string \<rightharpoonup> ('v \<times> nat)"

text \<open>
  Modelled from the spec: the lookup half of \<^verbatim>\<open>CacheStore.wrap\<close>, which is not among
  the sources: "return cached value if present and unexpired". An entry written at time
  \<open>t\<close> with time to live \<open>ttl\<close> carries \<open>expires = t + ttl\<close>. It is served as long as
  \<open>now \<le> expires\<close> and is expired once \<open>now > expires\<close>. The specification does not say
  what happens at the very instant \<open>now = expires\<close>; the statements about the time to live
  below are made for times strictly before and strictly after it.
\<close>

definition cache_get :: "nat \<Rightarrow> 'v cache_store \<Rightarrow> string \<Rightarrow> 'v option" where
  "cache_get now cache key =
     (case cache key of
        None \<Rightarrow> None
      | Some (v, expires) \<Rightarrow> if now \<le> expires then Some v else None)"

text \<open>
  Modelled from the spec: \<^verbatim>\<open>CacheStore.wrap\<close> of
  \<^verbatim>\<open>shared/caching/cache-store.shared\<close> is not among the sources. The specification
  gives it as \<^verbatim>\<open>wrap(key, computeFn, { ttl_seconds }) -> value\<close>: return the cached
  value if present and unexpired, else invoke \<^verbatim>\<open>computeFn\<close>, store, and return.
  A computation that throws stores nothing.
\<close>

definition wrap ::
  "string \<Rightarrow> (unit \<Rightarrow> (error + 'v) \<times> 'e list) \<Rightarrow> nat \<Rightarrow> nat \<Rightarrow> 'v cache_store
     \<Rightarrow> (error + 'v) \<times> 'e list \<times> 'v cache_store" where
  "wrap key computeFn ttl now cache =
     (case cache_get now cache key of
        Some v \<Rightarrow> (Inr v, [], cache)
      | None \<Rightarrow>
          (case computeFn () of
             (Inl e, evs) \<Rightarrow> (Inl e, evs, cache)
           | (Inr v, evs) \<Rightarrow> (Inr v, evs, cache(key \<mapsto> (v, now + ttl)))))"

subsection \<open>The private methods\<close>

text \<open>Lines 147 to 153.\<close>

definition getauthcheck ::
  "'a guard \<Rightarrow> 'a execution_context \<Rightarrow> (error + 'a authchecks) \<times> 'a event list" where
  "getauthcheck this context =
     (case reflector_get this ''authorization'' (getHandler context) of
        Inl e \<Rightarrow> (Inl e, [ReflectorGet ''authorization'' (getHandler context)])
      | Inr authchecks \<Rightarrow>
          if \<not> truthy authchecks then
            (reflector_get this ''authorization'' (getClass context),
             [ReflectorGet ''authorization'' (getHandler context),
              ReflectorGet ''authorization'' (getClass context)])
          else (Inr authchecks, [ReflectorGet ''authorization'' (getHandler context)]))"

text \<open>Line 137.\<close>

definition authcheckCacheKey :: "'a execution_context \<Rightarrow> string" where
  "authcheckCacheKey context =
     ''AuthorizationGuard-authcheck?class='' @ fn_source (getClass context)
       @ ''&handler='' @ fn_source (getHandler context) @ '')''"

text \<open>Lines 136 to 145. The clock is read once per decision and passed in as \<open>now\<close>.\<close>

definition getauthchecksFromCache ::
  "'a guard \<Rightarrow> 'a execution_context \<Rightarrow> nat \<Rightarrow> 'a authchecks cache_store
     \<Rightarrow> (error + 'a authchecks) \<times> 'a event list \<times> 'a authchecks cache_store" where
  "getauthchecksFromCache this context now cache =
     (case wrap (authcheckCacheKey context) (\<lambda>_. getauthcheck this context)
             (60 * 60 * 24 * 7) now cache of
        (r, evs, cache') \<Rightarrow> (r, Wrap (authcheckCacheKey context) (60 * 60 * 24 * 7) # evs, cache'))"

text \<open>
  Lines 115 to 134. The argument is \<^verbatim>\<open>req.params['organizationSlug']\<close>; an absent
  parameter and the empty string are both falsy.
\<close>

definition getOrgIdFromSlug ::
  "'a guard \<Rightarrow> string option \<Rightarrow> (error + string option) \<times> 'a event list" where
  "getOrgIdFromSlug this organizationSlug =
     (case organizationSlug of
        None \<Rightarrow> (Inr None, [Log DebugLevel ''organizationSlug not found''])
      | Some slug \<Rightarrow>
          if slug = [] then (Inr None, [Log DebugLevel ''organizationSlug not found''])
          else
            (case organizationCache_findOne this slug of
               Inl e \<Rightarrow> (Inl e, [Log DebugLevel ''organizationSlug found'', FindOne slug])
             | Inr None \<Rightarrow>
                 (Inr None,
                  [Log DebugLevel ''organizationSlug found'', FindOne slug,
                   Log DebugLevel ''orgId not found for slug''])
             | Inr (Some organization) \<Rightarrow>
                 (Inr (Some (organization_id organization)),
                  [Log DebugLevel ''organizationSlug found'', FindOne slug,
                   Log DebugLevel ''orgId found for slug''])))"

subsection \<open>The decision\<close>

text \<open>The loop of lines 82 to 97, with the result it leaves the method with.\<close>

fun run_authchecks ::
  "'a authcheck list \<Rightarrow> 'a authcheck_params \<Rightarrow> (error + bool) \<times> 'a event list" where
  "run_authchecks [] p = (Inr True, [])"
| "run_authchecks (authcheck # rest) p =
     (case isAuthorized authcheck p of
        Inl e \<Rightarrow> (Inl e, [IsAuthorized (constructor_name authcheck) p])
      | Inr ok \<Rightarrow>
          if \<not> ok then
            (Inr False,
             [IsAuthorized (constructor_name authcheck) p,
              Log WarnLevel (''authcheck failed for authcheck '' @ constructor_name authcheck)])
          else
            (case run_authchecks rest p of
               (r, evs) \<Rightarrow> (r, IsAuthorized (constructor_name authcheck) p # evs)))"

text \<open>The body of the \<^verbatim>\<open>try\<close> block, lines 38 to 104.\<close>

definition canActivate_try ::
  "'a guard \<Rightarrow> 'a execution_context \<Rightarrow> nat \<Rightarrow> 'a authchecks cache_store
     \<Rightarrow> (error + bool) \<times> 'a event list \<times> 'a authchecks cache_store" where
  "canActivate_try this context now cache =
     (case getRequest context of
        None \<Rightarrow> (Inl (BadGatewayHttpError ''request can not be null''), [], cache)
      | Some req \<Rightarrow>
          if publicRouteRegex_test this (originalUrl req) then
            (Inr True,
             [Log TraceLevel ''AuthorizationGuard.canActivate'', Log DebugLevel ''Public Route''],
             cache)
          else
            (case authorization req of
               None \<Rightarrow>
                 (Inr False,
                  [Log TraceLevel ''AuthorizationGuard.canActivate'',
                   Log WarnLevel ''Route not public, but no authorization found. ''],
                  cache)
             | Some auth \<Rightarrow>
                 (case getOrgIdFromSlug this (params req ''organizationSlug'') of
                    (Inl e, evs1) \<Rightarrow>
                      (Inl e,
                       [Log TraceLevel ''AuthorizationGuard.canActivate'',
                        Log DebugLevel ''AuthorizationGuard''] @ evs1,
                       cache)
                  | (Inr orgId, evs1) \<Rightarrow>
                      (case getauthchecksFromCache this context now cache of
                         (Inl e, evs2, cache') \<Rightarrow>
                           (Inl e,
                            [Log TraceLevel ''AuthorizationGuard.canActivate'',
                             Log DebugLevel ''AuthorizationGuard''] @ evs1 @ evs2,
                            cache')
                       | (Inr authchecks, evs2, cache') \<Rightarrow>
                           (case authchecks of
                              Undefined \<Rightarrow>
                                (Inr False,
                                 [Log TraceLevel ''AuthorizationGuard.canActivate'',
                                  Log DebugLevel ''AuthorizationGuard''] @ evs1 @ evs2
                                   @ [Log WarnLevel ''Request not authorized''],
                                 cache')
                            | Null \<Rightarrow>
                                (Inr False,
                                 [Log TraceLevel ''AuthorizationGuard.canActivate'',
                                  Log DebugLevel ''AuthorizationGuard''] @ evs1 @ evs2
                                   @ [Log WarnLevel ''Request not authorized''],
                                 cache')
                            | SingleCheck c \<Rightarrow>
                                (Inl (TypeError ''authchecks is not iterable''),
                                 [Log TraceLevel ''AuthorizationGuard.canActivate'',
                                  Log DebugLevel ''AuthorizationGuard''] @ evs1 @ evs2,
                                 cache')
                            | Checks cs \<Rightarrow>
                                if length cs = 0 then
                                  (Inr False,
                                   [Log TraceLevel ''AuthorizationGuard.canActivate'',
                                    Log DebugLevel ''AuthorizationGuard''] @ evs1 @ evs2
                                     @ [Log WarnLevel ''Request not authorized''],
                                   cache')
                                else
                                  (case run_authchecks cs
                                          \<lparr>requestingEntity = auth,
                                           orgIdForTargetResource = orgId,
                                           userIdForTargetResource = params req ''userId''\<rparr> of
                                     (Inr True, evs3) \<Rightarrow>
                                       (Inr True,
                                        [Log TraceLevel ''AuthorizationGuard.canActivate'',
                                         Log DebugLevel ''AuthorizationGuard''] @ evs1 @ evs2
                                          @ evs3 @ [Log DebugLevel ''authcheck passed''],
                                        cache')
                                   | (r, evs3) \<Rightarrow>
                                       (r,
                                        [Log TraceLevel ''AuthorizationGuard.canActivate'',
                                         Log DebugLevel ''AuthorizationGuard''] @ evs1 @ evs2
                                          @ evs3,
                                        cache')))))))"

text \<open>
  Lines 36 to 109: the \<^verbatim>\<open>try\<close> block under its \<^verbatim>\<open>catch\<close>. The result is what the
  returned promise settles to: \<open>Inr b\<close> when it resolves to \<open>b\<close>, \<open>Inl e\<close> when it
  rejects with \<open>e\<close>.
\<close>

definition canActivate ::
  "'a guard \<Rightarrow> 'a execution_context \<Rightarrow> nat \<Rightarrow> 'a authchecks cache_store
     \<Rightarrow> (error + bool) \<times> 'a event list \<times> 'a authchecks cache_store" where
  "canActivate this context now cache =
     (case canActivate_try this context now cache of
        (Inl error, evs, cache') \<Rightarrow>
          (Inr False, evs @ [Log ErrorLevel ''Error in ResourceGuard''], cache')
      | (Inr b, evs, cache') \<Rightarrow> (Inr b, evs, cache'))"

subsection \<open>Reading the event list\<close>

text \<open>
  Whether an event is a metadata read on the given class or handler. One run of
  \<open>getauthcheck\<close> reads the handler's metadata exactly once, so the reads on a handler
  count the computations of its rule set.
\<close>

fun is_metadata_read :: "target \<Rightarrow> 'a event \<Rightarrow> bool" where
  "is_metadata_read t (ReflectorGet key t') = (t' = t)"
| "is_metadata_read t (Log l m) = False"
| "is_metadata_read t (FindOne slug) = False"
| "is_metadata_read t (Wrap key ttl) = False"
| "is_metadata_read t (IsAuthorized n p) = False"

subsection \<open>A concrete application\<close>

text \<open>
  A small application on which the theorems below are instantiated: four rules, two
  controllers, handlers with different rule sets, one known organization, one slug on
  which the repository fails, one handler whose metadata cannot be read, one whose
  metadata is a single contract, and a public prefix. The requesting entity is a user
  name. Two further controllers come from one class factory: they are different classes
  with the same source text, and so are their handlers.
\<close>

definition pass_check :: "string authcheck" where
  "pass_check = \<lparr>constructor_name = ''PassCheck'', isAuthorized = (\<lambda>p. Inr True)\<rparr>"

definition fail_check :: "string authcheck" where
  "fail_check = \<lparr>constructor_name = ''FailCheck'', isAuthorized = (\<lambda>p. Inr False)\<rparr>"

definition throw_check :: "string authcheck" where
  "throw_check =
     \<lparr>constructor_name = ''ThrowCheck'', isAuthorized = (\<lambda>p. Inl (Thrown ''rule failed''))\<rparr>"

definition org_check :: "string authcheck" where
  "org_check =
     \<lparr>constructor_name = ''OrgCheck'',
      isAuthorized = (\<lambda>p. Inr (orgIdForTargetResource p = Some ''org_1''))\<rparr>"

definition cats_controller :: target where
  "cats_controller = \<lparr>fn_id = 0, fn_source = ''class CatsController { }''\<rparr>"

definition bare_controller :: target where
  "bare_controller = \<lparr>fn_id = 10, fn_source = ''class BareController { }''\<rparr>"

definition handler_fn :: "nat \<Rightarrow> string \<Rightarrow> target" where
  "handler_fn n name = \<lparr>fn_id = n, fn_source = ''async '' @ name @ ''() { }''\<rparr>"

definition example_guard :: "string guard" where
  "example_guard =
     \<lparr>reflector_get =
        (\<lambda>key t.
           if key \<noteq> ''authorization'' then Inr Undefined
           else if fn_id t = 0 then Inr (Checks [pass_check])
           else if fn_id t = 1 then Inr (Checks [pass_check, fail_check, pass_check])
           else if fn_id t = 2 then Inr (Checks [])
           else if fn_id t = 3 then Inr (Checks [pass_check, throw_check])
           else if fn_id t = 4 then Inr (Checks [pass_check, org_check])
           else if fn_id t = 5 then Inr (Checks [fail_check])
           else if fn_id t = 7 then Inl (Thrown ''metadata unavailable'')
           else if fn_id t = 8 then Inr (SingleCheck pass_check)
           else if fn_id t = 20 then Inr (Checks [pass_check])
           else if fn_id t = 21 then Inr (Checks [])
           else if fn_id t = 23 then Inr (Checks [pass_check])
           else Inr Undefined),
      organizationCache_findOne =
        (\<lambda>slug. if slug = ''acme'' then Inr (Some \<lparr>organization_id = ''org_1''\<rparr>)
               else if slug = ''down'' then Inl (Thrown ''repository unavailable'')
               else Inr None),
      publicRouteRegex_test = (\<lambda>url. take 8 url = ''/public/'')\<rparr>"

definition example_request :: "string \<Rightarrow> string option \<Rightarrow> (string \<rightharpoonup> string) \<Rightarrow> string request" where
  "example_request url auth ps = \<lparr>originalUrl = url, authorization = auth, params = ps\<rparr>"

definition example_context :: "target \<Rightarrow> target \<Rightarrow> string request \<Rightarrow> string execution_context" where
  "example_context cls h req = \<lparr>getRequest = Some req, getClass = cls, getHandler = h\<rparr>"

definition route :: "nat \<Rightarrow> string \<Rightarrow> string option \<Rightarrow> (string \<rightharpoonup> string) \<Rightarrow> string execution_context" where
  "route n url auth ps =
     example_context cats_controller (handler_fn n ''handle'') (example_request url auth ps)"

definition bare_route :: "string \<Rightarrow> string option \<Rightarrow> (string \<rightharpoonup> string) \<Rightarrow> string execution_context" where
  "bare_route url auth ps =
     example_context bare_controller (handler_fn 11 ''handle'') (example_request url auth ps)"

definition mixin_route :: "nat \<Rightarrow> string \<Rightarrow> string option \<Rightarrow> (string \<rightharpoonup> string) \<Rightarrow> string execution_context" where
  "mixin_route n url auth ps =
     example_context \<lparr>fn_id = n, fn_source = ''class MixinController { }''\<rparr>
       (handler_fn (Suc n) ''handle'') (example_request url auth ps)"

section \<open>Properties of the decision\<close>

lemmas example_defs =
  pass_check_def fail_check_def throw_check_def org_check_def cats_controller_def
  bare_controller_def handler_fn_def example_guard_def example_request_def
  example_context_def route_def bare_route_def mixin_route_def

lemmas method_defs =
  canActivate_def canActivate_try_def getOrgIdFromSlug_def getauthchecksFromCache_def
  getauthcheck_def wrap_def cache_get_def authcheckCacheKey_def

subsection \<open>The \<^verbatim>\<open>catch\<close> block\<close>

lemma canActivate_resolves:
  "\<exists>b. fst (canActivate g ctx now cache) = Inr b"
proof -
  obtain r evs c where tr: "canActivate_try g ctx now cache = (r, evs, c)"
    by (cases "canActivate_try g ctx now cache") auto
  show ?thesis
  proof (cases r)
    case (Inl e)
    with tr have "fst (canActivate g ctx now cache) = Inr False"
      by (simp add: canActivate_def)
    then show ?thesis by blast
  next
    case (Inr b)
    with tr have "fst (canActivate g ctx now cache) = Inr b"
      by (simp add: canActivate_def)
    then show ?thesis by blast
  qed
qed

lemma canActivate_catches:
  "fst (canActivate_try g ctx now cache) = Inl e
     \<Longrightarrow> fst (canActivate g ctx now cache) = Inr False"
  by (cases "canActivate_try g ctx now cache") (simp add: canActivate_def)

lemma canActivate_keeps:
  "fst (canActivate_try g ctx now cache) = Inr b
     \<Longrightarrow> fst (canActivate g ctx now cache) = Inr b"
  by (cases "canActivate_try g ctx now cache") (simp add: canActivate_def)

lemma canActivate_allows_iff:
  "fst (canActivate g ctx now cache) = Inr True
     \<longleftrightarrow> fst (canActivate_try g ctx now cache) = Inr True"
proof (cases "fst (canActivate_try g ctx now cache)")
  case (Inl e)
  then show ?thesis using canActivate_catches [of g ctx now cache e] by simp
next
  case (Inr b)
  then show ?thesis using canActivate_keeps [of g ctx now cache b] by simp
qed

lemma canActivate_try_no_request:
  "getRequest ctx = None
     \<Longrightarrow> canActivate_try g ctx now cache
           = (Inl (BadGatewayHttpError ''request can not be null''), [], cache)"
  by (simp add: canActivate_try_def)

lemma canActivate_events:
  "set (fst (snd (canActivate g ctx now cache)))
     \<subseteq> insert (Log ErrorLevel ''Error in ResourceGuard'')
          (set (fst (snd (canActivate_try g ctx now cache))))"
  by (cases "canActivate_try g ctx now cache")
     (auto simp: canActivate_def split: sum.splits)

lemma canActivate_cache:
  "snd (snd (canActivate g ctx now cache)) = snd (snd (canActivate_try g ctx now cache))"
  by (cases "canActivate_try g ctx now cache")
     (auto simp: canActivate_def split: sum.splits)

subsection \<open>The rule loop\<close>

lemma run_authchecks_all_pass:
  "\<forall>c\<in>set cs. isAuthorized c p = Inr True
     \<Longrightarrow> run_authchecks cs p = (Inr True, map (\<lambda>c. IsAuthorized (constructor_name c) p) cs)"
  by (induction cs) auto

lemma run_authchecks_first_fail:
  "\<forall>c'\<in>set pre. isAuthorized c' p = Inr True \<Longrightarrow> isAuthorized c p = Inr False
     \<Longrightarrow> run_authchecks (pre @ c # post) p
           = (Inr False,
              map (\<lambda>c. IsAuthorized (constructor_name c) p) (pre @ [c])
                @ [Log WarnLevel (''authcheck failed for authcheck '' @ constructor_name c)])"
  by (induction pre) auto

lemma run_authchecks_true_iff:
  "fst (run_authchecks cs p) = Inr True \<longleftrightarrow> (\<forall>c\<in>set cs. isAuthorized c p = Inr True)"
  by (induction cs) (auto split: sum.splits prod.splits)

lemma run_authchecks_params:
  "IsAuthorized n q \<in> set (snd (run_authchecks cs p)) \<Longrightarrow> q = p"
  by (induction cs) (auto split: sum.splits prod.splits if_splits)

lemma run_authchecks_first:
  "cs \<noteq> [] \<Longrightarrow> IsAuthorized (constructor_name (hd cs)) p \<in> set (snd (run_authchecks cs p))"
  by (cases cs) (auto split: sum.splits prod.splits)

lemma canActivate_try_loop:
  assumes "getRequest ctx = Some req"
    and "\<not> publicRouteRegex_test g (originalUrl req)"
    and "authorization req = Some auth"
    and "getOrgIdFromSlug g (params req ''organizationSlug'') = (Inr orgId, evs1)"
    and "getauthchecksFromCache g ctx now cache = (Inr (Checks cs), evs2, cache')"
    and "cs \<noteq> []"
    and "run_authchecks cs
           \<lparr>requestingEntity = auth, orgIdForTargetResource = orgId,
            userIdForTargetResource = params req ''userId''\<rparr> = (r, evs3)"
  shows "canActivate_try g ctx now cache =
           (r,
            [Log TraceLevel ''AuthorizationGuard.canActivate'',
             Log DebugLevel ''AuthorizationGuard''] @ evs1 @ evs2 @ evs3
              @ (if r = Inr True then [Log DebugLevel ''authcheck passed''] else []),
            cache')"
  using assms by (auto simp: canActivate_try_def split: sum.splits bool.splits)

subsection \<open>Events of the lookups\<close>

lemma getOrgIdFromSlug_events:
  "IsAuthorized n q \<notin> set (snd (getOrgIdFromSlug g s))"
  by (auto simp: getOrgIdFromSlug_def split: option.splits sum.splits)

lemma getauthcheck_events:
  "IsAuthorized n q \<notin> set (snd (getauthcheck g ctx))"
  by (auto simp: getauthcheck_def split: sum.splits)

lemma getauthchecksFromCache_events:
  "IsAuthorized n q \<notin> set (fst (snd (getauthchecksFromCache g ctx now cache)))"
  using getauthcheck_events [of n q g ctx]
  by (auto simp: getauthchecksFromCache_def wrap_def split: option.splits prod.splits sum.splits)

lemma getOrgIdFromSlug_found:
  "slug \<noteq> [] \<Longrightarrow> organizationCache_findOne g slug = Inr (Some org)
     \<Longrightarrow> fst (getOrgIdFromSlug g (Some slug)) = Inr (Some (organization_id org))"
  by (simp add: getOrgIdFromSlug_def)

lemma getOrgIdFromSlug_absent:
  "s = None \<or> s = Some [] \<or> (s = Some slug \<and> organizationCache_findOne g slug = Inr None)
     \<Longrightarrow> fst (getOrgIdFromSlug g s) = Inr None"
  by (auto simp: getOrgIdFromSlug_def)

lemma canActivate_try_rule_params:
  assumes "IsAuthorized n q \<in> set (fst (snd (canActivate_try g ctx now cache)))"
  shows "\<exists>req auth orgId.
           getRequest ctx = Some req \<and> authorization req = Some auth
           \<and> fst (getOrgIdFromSlug g (params req ''organizationSlug'')) = Inr orgId
           \<and> q = \<lparr>requestingEntity = auth, orgIdForTargetResource = orgId,
                  userIdForTargetResource = params req ''userId''\<rparr>"
proof (cases "getRequest ctx")
  case None
  with assms show ?thesis by (simp add: canActivate_try_def)
next
  case (Some req)
  show ?thesis
  proof (cases "publicRouteRegex_test g (originalUrl req)")
    case True
    with Some assms show ?thesis by (simp add: canActivate_try_def)
  next
    case False
    note notpublic = this
    show ?thesis
    proof (cases "authorization req")
      case None
      with Some notpublic assms show ?thesis by (simp add: canActivate_try_def)
    next
      case (Some auth)
      note auth = this
      obtain ro evs1 where org: "getOrgIdFromSlug g (params req ''organizationSlug'') = (ro, evs1)"
        by (cases "getOrgIdFromSlug g (params req ''organizationSlug'')") auto
      have e1: "IsAuthorized n q \<notin> set evs1"
        using getOrgIdFromSlug_events [of n q g "params req ''organizationSlug''"] org by simp
      obtain rc evs2 cache' where res: "getauthchecksFromCache g ctx now cache = (rc, evs2, cache')"
        by (cases "getauthchecksFromCache g ctx now cache") auto
      have e2: "IsAuthorized n q \<notin> set evs2"
        using getauthchecksFromCache_events [of n q g ctx now cache] res by simp
      show ?thesis
      proof (cases ro)
        case (Inl e)
        with \<open>getRequest ctx = Some req\<close> notpublic auth org e1 assms show ?thesis
          by (simp add: canActivate_try_def)
      next
        case (Inr orgId)
        note orgId = this
        show ?thesis
        proof (cases rc)
          case (Inl e)
          with \<open>getRequest ctx = Some req\<close> notpublic auth org orgId res e1 e2 assms show ?thesis
            by (simp add: canActivate_try_def)
        next
          case (Inr authchecks)
          let ?p = "\<lparr>requestingEntity = auth, orgIdForTargetResource = orgId,
                     userIdForTargetResource = params req ''userId''\<rparr>"
          have rp: "run_authchecks cs ?p = (r, evs) \<Longrightarrow> IsAuthorized n q \<in> set evs \<Longrightarrow> q = ?p"
            for cs r evs
            using run_authchecks_params [of n q cs ?p] by simp
          from Inr \<open>getRequest ctx = Some req\<close> notpublic auth org orgId res e1 e2 assms
          have "q = ?p"
            by (cases authchecks)
               (auto simp: canActivate_try_def dest: rp
                  split: if_splits prod.splits sum.splits bool.splits)
          with \<open>getRequest ctx = Some req\<close> auth org orgId show ?thesis by simp
        qed
      qed
    qed
  qed
qed

lemma canActivate_rule_params:
  assumes "IsAuthorized n q \<in> set (fst (snd (canActivate g ctx now cache)))"
  shows "\<exists>req auth orgId.
           getRequest ctx = Some req \<and> authorization req = Some auth
           \<and> fst (getOrgIdFromSlug g (params req ''organizationSlug'')) = Inr orgId
           \<and> q = \<lparr>requestingEntity = auth, orgIdForTargetResource = orgId,
                  userIdForTargetResource = params req ''userId''\<rparr>"
proof -
  have "IsAuthorized n q \<in> set (fst (snd (canActivate_try g ctx now cache)))"
    using assms canActivate_events [of g ctx now cache] by auto
  then show ?thesis by (rule canActivate_try_rule_params)
qed

subsection \<open>Resolution through the cache\<close>

lemma getauthchecksFromCache_hit:
  "cache_get now cache (authcheckCacheKey ctx) = Some v
     \<Longrightarrow> getauthchecksFromCache g ctx now cache
           = (Inr v, [Wrap (authcheckCacheKey ctx) 604800], cache)"
  by (simp add: getauthchecksFromCache_def wrap_def)

lemma getauthchecksFromCache_miss:
  "cache_get now cache (authcheckCacheKey ctx) = None
     \<Longrightarrow> getauthchecksFromCache g ctx now cache
           = (fst (getauthcheck g ctx),
              Wrap (authcheckCacheKey ctx) 604800 # snd (getauthcheck g ctx),
              (case fst (getauthcheck g ctx) of
                 Inl e \<Rightarrow> cache
               | Inr v \<Rightarrow> cache(authcheckCacheKey ctx \<mapsto> (v, now + 604800))))"
  by (cases "getauthcheck g ctx")
     (auto simp: getauthchecksFromCache_def wrap_def split: sum.splits)


lemma canActivate_try_events_kept:
  "set (fst (snd (canActivate_try g ctx now cache))) \<subseteq> set (fst (snd (canActivate g ctx now cache)))"
  by (cases "canActivate_try g ctx now cache")
     (auto simp: canActivate_def split: sum.splits)

subsection \<open>Metadata reads of a decision\<close>

lemma getOrgIdFromSlug_no_reads:
  "filter (is_metadata_read h) (snd (getOrgIdFromSlug g s)) = []"
  by (auto simp: getOrgIdFromSlug_def split: option.splits sum.splits)

lemma run_authchecks_no_reads:
  "filter (is_metadata_read h) (snd (run_authchecks cs p)) = []"
  by (induction cs) (auto split: sum.splits prod.splits)

lemma getauthcheck_reads:
  "getHandler ctx \<noteq> getClass ctx
     \<Longrightarrow> length (filter (is_metadata_read (getHandler ctx)) (snd (getauthcheck g ctx))) = 1"
  by (auto simp: getauthcheck_def split: sum.splits)

lemma canActivate_reads:
  "filter (is_metadata_read h) (fst (snd (canActivate g ctx now cache)))
     = filter (is_metadata_read h) (fst (snd (canActivate_try g ctx now cache)))"
  by (cases "canActivate_try g ctx now cache")
     (auto simp: canActivate_def split: sum.splits)

lemma canActivate_try_resolution:
  assumes "getRequest ctx = Some req"
    and "\<not> publicRouteRegex_test g (originalUrl req)"
    and "authorization req = Some auth"
    and "fst (getOrgIdFromSlug g (params req ''organizationSlug'')) = Inr orgId"
  shows "snd (snd (canActivate_try g ctx now cache))
           = snd (snd (getauthchecksFromCache g ctx now cache))
         \<and> filter (is_metadata_read h) (fst (snd (canActivate_try g ctx now cache)))
             = filter (is_metadata_read h) (fst (snd (getauthchecksFromCache g ctx now cache)))"
proof -
  obtain evs1 where org: "getOrgIdFromSlug g (params req ''organizationSlug'') = (Inr orgId, evs1)"
    using assms(4) by (cases "getOrgIdFromSlug g (params req ''organizationSlug'')") auto
  have e1: "filter (is_metadata_read h) evs1 = []"
    using getOrgIdFromSlug_no_reads [of h g "params req ''organizationSlug''"] org by simp
  obtain rc evs2 cache' where res: "getauthchecksFromCache g ctx now cache = (rc, evs2, cache')"
    by (cases "getauthchecksFromCache g ctx now cache") auto
  have e3: "run_authchecks cs p = (r, evs3) \<Longrightarrow> filter (is_metadata_read h) evs3 = []"
    for cs r evs3 and p :: "'a authcheck_params"
    using run_authchecks_no_reads [of h cs p] by simp
  show ?thesis
  proof (cases rc)
    case (Inl e)
    with assms(1-3) org res e1 show ?thesis by (simp add: canActivate_try_def)
  next
    case (Inr authchecks)
    with assms(1-3) org res e1 show ?thesis
      by (cases authchecks)
         (auto simp: canActivate_try_def e3 split: prod.splits sum.splits bool.splits)
  qed
qed

lemma canActivate_try_no_resolution:
  assumes "getRequest ctx = None
           \<or> (\<exists>req. getRequest ctx = Some req
                  \<and> (publicRouteRegex_test g (originalUrl req) \<or> authorization req = None
                       \<or> (\<exists>e. fst (getOrgIdFromSlug g (params req ''organizationSlug'')) = Inl e)))"
  shows "snd (snd (canActivate_try g ctx now cache)) = cache
         \<and> filter (is_metadata_read h) (fst (snd (canActivate_try g ctx now cache))) = []"
proof (cases "getRequest ctx")
  case None
  then show ?thesis by (simp add: canActivate_try_def)
next
  case (Some req)
  show ?thesis
  proof (cases "publicRouteRegex_test g (originalUrl req) \<or> authorization req = None")
    case True
    with Some show ?thesis by (auto simp: canActivate_try_def)
  next
    case False
    with Some assms obtain e evs1 auth
      where org: "getOrgIdFromSlug g (params req ''organizationSlug'') = (Inl e, evs1)"
        and auth: "authorization req = Some auth"
      by (cases "getOrgIdFromSlug g (params req ''organizationSlug'')") auto
    have "filter (is_metadata_read h) evs1 = []"
      using getOrgIdFromSlug_no_reads [of h g "params req ''organizationSlug''"] org by simp
    with Some False org auth show ?thesis by (simp add: canActivate_try_def)
  qed
qed

lemma canActivate_resolution_cases:
  "(snd (snd (canActivate g ctx now cache)) = cache
      \<and> filter (is_metadata_read h) (fst (snd (canActivate g ctx now cache))) = [])
   \<or> (snd (snd (canActivate g ctx now cache))
         = snd (snd (getauthchecksFromCache g ctx now cache))
       \<and> filter (is_metadata_read h) (fst (snd (canActivate g ctx now cache)))
           = filter (is_metadata_read h) (fst (snd (getauthchecksFromCache g ctx now cache))))"
proof (cases "\<exists>req auth orgId. getRequest ctx = Some req
                \<and> \<not> publicRouteRegex_test g (originalUrl req) \<and> authorization req = Some auth
                \<and> fst (getOrgIdFromSlug g (params req ''organizationSlug'')) = Inr orgId")
  case True
  then obtain req auth orgId where "getRequest ctx = Some req"
      and "\<not> publicRouteRegex_test g (originalUrl req)" and "authorization req = Some auth"
      and "fst (getOrgIdFromSlug g (params req ''organizationSlug'')) = Inr orgId"
    by blast
  then show ?thesis
    using canActivate_try_resolution [of ctx req g auth orgId now cache h]
      canActivate_reads [of h g ctx now cache] canActivate_cache [of g ctx now cache]
    by simp
next
  case False
  then have "getRequest ctx = None
             \<or> (\<exists>req. getRequest ctx = Some req
                    \<and> (publicRouteRegex_test g (originalUrl req) \<or> authorization req = None
                         \<or> (\<exists>e. fst (getOrgIdFromSlug g (params req ''organizationSlug''))
                                  = Inl e)))"
    by (cases "getRequest ctx") (auto intro: sum.exhaust)
  then show ?thesis
    using canActivate_try_no_resolution [of ctx g now cache h]
      canActivate_reads [of h g ctx now cache] canActivate_cache [of g ctx now cache]
    by simp
qed

lemma getauthchecksFromCache_reads:
  assumes "getHandler ctx \<noteq> getClass ctx"
  shows "length (filter (is_metadata_read (getHandler ctx))
                   (fst (snd (getauthchecksFromCache g ctx now cache))))
           = (case cache_get now cache (authcheckCacheKey ctx) of None \<Rightarrow> 1 | Some v \<Rightarrow> 0)"
proof (cases "cache_get now cache (authcheckCacheKey ctx)")
  case None
  then show ?thesis
    using getauthchecksFromCache_miss [of now cache ctx g] getauthcheck_reads [OF assms, of g]
    by simp
next
  case (Some v)
  then show ?thesis using getauthchecksFromCache_hit [of now cache ctx v g] by simp
qed

subsection \<open>Exceptions in the \<^verbatim>\<open>try\<close> block\<close>

lemma canActivate_catch_exact:
  "fst (canActivate_try g ctx now cache) = Inl e
     \<Longrightarrow> canActivate g ctx now cache
           = (Inr False,
              fst (snd (canActivate_try g ctx now cache))
                @ [Log ErrorLevel ''Error in ResourceGuard''],
              snd (snd (canActivate_try g ctx now cache)))"
  by (cases "canActivate_try g ctx now cache") (simp add: canActivate_def)

lemma run_authchecks_first_throw:
  "\<forall>c'\<in>set pre. isAuthorized c' p = Inr True \<Longrightarrow> isAuthorized c p = Inl e
     \<Longrightarrow> run_authchecks (pre @ c # post) p
           = (Inl e, map (\<lambda>c. IsAuthorized (constructor_name c) p) (pre @ [c]))"
  by (induction pre) auto

lemma canActivate_try_findOne_throws:
  assumes "getRequest ctx = Some req"
    and "\<not> publicRouteRegex_test g (originalUrl req)"
    and "authorization req = Some auth"
    and "params req ''organizationSlug'' = Some slug"
    and "slug \<noteq> []"
    and "organizationCache_findOne g slug = Inl e"
  shows "canActivate_try g ctx now cache
           = (Inl e,
              [Log TraceLevel ''AuthorizationGuard.canActivate'',
               Log DebugLevel ''AuthorizationGuard'',
               Log DebugLevel ''organizationSlug found'', FindOne slug],
              cache)"
  using assms by (simp add: canActivate_try_def getOrgIdFromSlug_def)

lemma canActivate_try_resolution_throws:
  assumes "getRequest ctx = Some req"
    and "\<not> publicRouteRegex_test g (originalUrl req)"
    and "authorization req = Some auth"
    and "fst (getOrgIdFromSlug g (params req ''organizationSlug'')) = Inr orgId"
    and "fst (getauthchecksFromCache g ctx now cache) = Inl e"
  shows "fst (canActivate_try g ctx now cache) = Inl e"
proof -
  obtain evs1 where "getOrgIdFromSlug g (params req ''organizationSlug'') = (Inr orgId, evs1)"
    using assms(4) by (cases "getOrgIdFromSlug g (params req ''organizationSlug'')") auto
  moreover obtain evs2 cache'
    where "getauthchecksFromCache g ctx now cache = (Inl e, evs2, cache')"
    using assms(5) by (cases "getauthchecksFromCache g ctx now cache") auto
  ultimately show ?thesis
    using assms(1-3) by (simp add: canActivate_try_def)
qed

lemma getauthcheck_throws:
  "reflector_get g ''authorization'' (getHandler ctx) = Inl e
   \<or> (\<exists>h. reflector_get g ''authorization'' (getHandler ctx) = Inr h \<and> \<not> truthy h
           \<and> reflector_get g ''authorization'' (getClass ctx) = Inl e)
     \<Longrightarrow> fst (getauthcheck g ctx) = Inl e"
  by (auto simp: getauthcheck_def)

lemma canActivate_try_single_check:
  assumes "getRequest ctx = Some req"
    and "\<not> publicRouteRegex_test g (originalUrl req)"
    and "authorization req = Some auth"
    and "fst (getOrgIdFromSlug g (params req ''organizationSlug'')) = Inr orgId"
    and "fst (getauthchecksFromCache g ctx now cache) = Inr (SingleCheck c)"
  shows "fst (canActivate_try g ctx now cache) = Inl (TypeError ''authchecks is not iterable'')"
proof -
  obtain evs1 where "getOrgIdFromSlug g (params req ''organizationSlug'') = (Inr orgId, evs1)"
    using assms(4) by (cases "getOrgIdFromSlug g (params req ''organizationSlug'')") auto
  moreover obtain evs2 cache'
    where "getauthchecksFromCache g ctx now cache = (Inr (SingleCheck c), evs2, cache')"
    using assms(5) by (cases "getauthchecksFromCache g ctx now cache") auto
  ultimately show ?thesis
    using assms(1-3) by (simp add: canActivate_try_def)
qed

lemma canActivate_try_rule_throws:
  assumes "getRequest ctx = Some req"
    and "\<not> publicRouteRegex_test g (originalUrl req)"
    and "authorization req = Some auth"
    and "fst (getOrgIdFromSlug g (params req ''organizationSlug'')) = Inr orgId"
    and "fst (getauthchecksFromCache g ctx now cache) = Inr (Checks (pre @ c # post))"
    and "\<forall>c'\<in>set pre.
           isAuthorized c'
             \<lparr>requestingEntity = auth, orgIdForTargetResource = orgId,
              userIdForTargetResource = params req ''userId''\<rparr> = Inr True"
    and "isAuthorized c
           \<lparr>requestingEntity = auth, orgIdForTargetResource = orgId,
            userIdForTargetResource = params req ''userId''\<rparr> = Inl e"
  shows "fst (canActivate_try g ctx now cache) = Inl e"
proof -
  let ?p = "\<lparr>requestingEntity = auth, orgIdForTargetResource = orgId,
             userIdForTargetResource = params req ''userId''\<rparr>"
  obtain evs1 where o: "getOrgIdFromSlug g (params req ''organizationSlug'') = (Inr orgId, evs1)"
    using assms(4) by (cases "getOrgIdFromSlug g (params req ''organizationSlug'')") auto
  obtain evs2 cache'
    where r: "getauthchecksFromCache g ctx now cache = (Inr (Checks (pre @ c # post)), evs2, cache')"
    using assms(5) by (cases "getauthchecksFromCache g ctx now cache") auto
  have ne: "pre @ c # post \<noteq> []"
    by simp
  have run: "run_authchecks (pre @ c # post) ?p
               = (Inl e, map (\<lambda>c. IsAuthorized (constructor_name c) ?p) (pre @ [c]))"
    using run_authchecks_first_throw [of pre ?p c e post] assms(6,7) by simp
  show ?thesis
    using canActivate_try_loop [OF assms(1-3) o r ne run] by simp
qed

lemma canActivate_try_wrap_event:
  assumes "getRequest ctx = Some req"
    and "\<not> publicRouteRegex_test g (originalUrl req)"
    and "authorization req = Some auth"
    and "fst (getOrgIdFromSlug g (params req ''organizationSlug'')) = Inr orgId"
  shows "Wrap (authcheckCacheKey ctx) 604800 \<in> set (fst (snd (canActivate_try g ctx now cache)))"
proof -
  obtain evs1 where org: "getOrgIdFromSlug g (params req ''organizationSlug'') = (Inr orgId, evs1)"
    using assms(4) by (cases "getOrgIdFromSlug g (params req ''organizationSlug'')") auto
  obtain rc evs2 cache' where res: "getauthchecksFromCache g ctx now cache = (rc, evs2, cache')"
    by (cases "getauthchecksFromCache g ctx now cache") auto
  have w: "Wrap (authcheckCacheKey ctx) 604800 \<in> set evs2"
    using res by (auto simp: getauthchecksFromCache_def split: prod.splits)
  show ?thesis
  proof (cases rc)
    case (Inl e)
    with assms(1-3) org res w show ?thesis by (simp add: canActivate_try_def)
  next
    case (Inr authchecks)
    with assms(1-3) org res w show ?thesis
      by (cases authchecks)
         (auto simp: canActivate_try_def split: prod.splits sum.splits bool.splits)
  qed
qed


subsection \<open>Claims about the early exits\<close>

text \<open>
  C3, public-route bypass. When the request's \<^verbatim>\<open>originalUrl\<close> matches the public-route
  pattern, \<open>canActivate\<close> resolves to true whatever \<^verbatim>\<open>req.authorization\<close> holds. The
  events are the two log lines only: no rule is invoked, the organization repository is
  not asked, the cache store is not touched and is returned as it was.
\<close>

theorem public_route_bypass:
  assumes "getRequest ctx = Some req"
    and "publicRouteRegex_test g (originalUrl req)"
  shows "canActivate g ctx now cache =
           (Inr True,
            [Log TraceLevel ''AuthorizationGuard.canActivate'', Log DebugLevel ''Public Route''],
            cache)"
  using assms by (simp add: canActivate_def canActivate_try_def)

theorem public_route_bypass_witness:
  "getRequest (route 1 ''/public/health'' None Map.empty)
     = Some (example_request ''/public/health'' None Map.empty)
   \<and> publicRouteRegex_test example_guard
        (originalUrl (example_request ''/public/health'' None Map.empty))
   \<and> canActivate example_guard (route 1 ''/public/health'' None Map.empty) 0 Map.empty
       = (Inr True,
          [Log TraceLevel ''AuthorizationGuard.canActivate'', Log DebugLevel ''Public Route''],
          Map.empty)"
proof -
  have h1: "getRequest (route 1 ''/public/health'' None Map.empty)
              = Some (example_request ''/public/health'' None Map.empty)"
    by (simp add: example_defs)
  have h2: "publicRouteRegex_test example_guard
              (originalUrl (example_request ''/public/health'' None Map.empty))"
    by (simp add: example_defs)
  show ?thesis
    using public_route_bypass [OF h1 h2, where now = 0 and cache = Map.empty] h1 h2 by simp
qed

text \<open>
  C4, missing authorization context. When the path is not public and
  \<^verbatim>\<open>req.authorization\<close> is absent, \<open>canActivate\<close> resolves to false, after the warning
  and before any lookup.
\<close>

theorem missing_authorization_denied:
  assumes "getRequest ctx = Some req"
    and "\<not> publicRouteRegex_test g (originalUrl req)"
    and "authorization req = None"
  shows "canActivate g ctx now cache =
           (Inr False,
            [Log TraceLevel ''AuthorizationGuard.canActivate'',
             Log WarnLevel ''Route not public, but no authorization found. ''],
            cache)"
  using assms by (simp add: canActivate_def canActivate_try_def)

theorem missing_authorization_denied_witness:
  "getRequest (route 1 ''/cats'' None Map.empty) = Some (example_request ''/cats'' None Map.empty)
   \<and> \<not> publicRouteRegex_test example_guard
          (originalUrl (example_request ''/cats'' None Map.empty))
   \<and> authorization (example_request ''/cats'' None Map.empty) = None
   \<and> fst (canActivate example_guard (route 1 ''/cats'' None Map.empty) 0 Map.empty) = Inr False"
proof -
  have h1: "getRequest (route 1 ''/cats'' None Map.empty)
              = Some (example_request ''/cats'' None Map.empty)"
    by (simp add: example_defs)
  have h2: "\<not> publicRouteRegex_test example_guard
                (originalUrl (example_request ''/cats'' None Map.empty))"
    by (simp add: example_defs)
  have h3: "authorization (example_request ''/cats'' None Map.empty) = None"
    by (simp add: example_defs)
  show ?thesis
    using missing_authorization_denied [OF h1 h2 h3, where now = 0 and cache = Map.empty]
      h1 h2 h3
    by simp
qed

text \<open>
  C1, fail-closed default. For a request that is not public and carries an authorization
  context, if the rule set that resolution hands back is absent (\<^verbatim>\<open>undefined\<close> or
  \<^verbatim>\<open>null\<close>) or is the empty list, \<open>canActivate\<close> resolves to false.
\<close>

theorem fail_closed_default:
  assumes "getRequest ctx = Some req"
    and "\<not> publicRouteRegex_test g (originalUrl req)"
    and "authorization req = Some auth"
    and "fst (getauthchecksFromCache g ctx now cache) = Inr authchecks"
    and "authchecks = Undefined \<or> authchecks = Null \<or> authchecks = Checks []"
  shows "fst (canActivate g ctx now cache) = Inr False"
  using assms
  by (auto simp: canActivate_def canActivate_try_def split: prod.splits sum.splits)

theorem fail_closed_default_witness:
  "getRequest (bare_route ''/cats'' (Some ''alice'') Map.empty)
     = Some (example_request ''/cats'' (Some ''alice'') Map.empty)
   \<and> \<not> publicRouteRegex_test example_guard
          (originalUrl (example_request ''/cats'' (Some ''alice'') Map.empty))
   \<and> authorization (example_request ''/cats'' (Some ''alice'') Map.empty) = Some ''alice''
   \<and> fst (getauthchecksFromCache example_guard
             (bare_route ''/cats'' (Some ''alice'') Map.empty) 0 Map.empty) = Inr Undefined
   \<and> fst (canActivate example_guard
             (bare_route ''/cats'' (Some ''alice'') Map.empty) 0 Map.empty) = Inr False"
proof -
  have h1: "getRequest (bare_route ''/cats'' (Some ''alice'') Map.empty)
              = Some (example_request ''/cats'' (Some ''alice'') Map.empty)"
    by (simp add: example_defs)
  have h2: "\<not> publicRouteRegex_test example_guard
                (originalUrl (example_request ''/cats'' (Some ''alice'') Map.empty))"
    by (simp add: example_defs)
  have h3: "authorization (example_request ''/cats'' (Some ''alice'') Map.empty) = Some ''alice''"
    by (simp add: example_defs)
  have h4: "fst (getauthchecksFromCache example_guard
                   (bare_route ''/cats'' (Some ''alice'') Map.empty) 0 Map.empty) = Inr Undefined"
    by (simp add: example_defs method_defs)
  show ?thesis
    using fail_closed_default [OF h1 h2 h3 h4] h1 h2 h3 h4 by simp
qed

text \<open>
  C2, error containment. The promise returned by \<open>canActivate\<close> always resolves to a
  boolean and never rejects; an exception of the \<^verbatim>\<open>try\<close> block is logged and turned
  into false, and true comes only from the \<^verbatim>\<open>try\<close> block returning true. Each source
  of an exception reaches the \<^verbatim>\<open>catch\<close> block and gives false: a missing request
  object; the organization repository throwing; the cached resolution throwing,
  in particular the metadata lookup throwing while the rule set is computed, on the
  handler or on the controller; a resolved rule set that is a
  single contract and cannot be iterated; a rule throwing after the rules before it passed.
\<close>

theorem error_containment:
  "(\<exists>b. fst (canActivate g ctx now cache) = Inr b)
   \<and> (\<forall>e. fst (canActivate_try g ctx now cache) = Inl e
          \<longrightarrow> canActivate g ctx now cache
                = (Inr False,
                   fst (snd (canActivate_try g ctx now cache))
                     @ [Log ErrorLevel ''Error in ResourceGuard''],
                   snd (snd (canActivate_try g ctx now cache))))
   \<and> (fst (canActivate g ctx now cache) = Inr True
          \<longrightarrow> fst (canActivate_try g ctx now cache) = Inr True)
   \<and> (getRequest ctx = None
          \<longrightarrow> canActivate g ctx now cache
                = (Inr False, [Log ErrorLevel ''Error in ResourceGuard''], cache))
   \<and> (getRequest ctx = Some req \<and> \<not> publicRouteRegex_test g (originalUrl req)
        \<and> authorization req = Some auth
      \<longrightarrow> (params req ''organizationSlug'' = Some slug \<and> slug \<noteq> []
             \<and> organizationCache_findOne g slug = Inl e1
           \<longrightarrow> canActivate_try g ctx now cache
                 = (Inl e1,
                    [Log TraceLevel ''AuthorizationGuard.canActivate'',
                     Log DebugLevel ''AuthorizationGuard'',
                     Log DebugLevel ''organizationSlug found'', FindOne slug],
                    cache)
               \<and> fst (canActivate g ctx now cache) = Inr False)
          \<and> (fst (getOrgIdFromSlug g (params req ''organizationSlug'')) = Inr orgId
           \<longrightarrow> (fst (getauthchecksFromCache g ctx now cache) = Inl e4
                \<longrightarrow> fst (canActivate_try g ctx now cache) = Inl e4
                    \<and> fst (canActivate g ctx now cache) = Inr False)
               \<and> (cache_get now cache (authcheckCacheKey ctx) = None
                  \<and> (reflector_get g ''authorization'' (getHandler ctx) = Inl e2
                       \<or> (\<exists>h. reflector_get g ''authorization'' (getHandler ctx) = Inr h
                               \<and> \<not> truthy h
                               \<and> reflector_get g ''authorization'' (getClass ctx) = Inl e2))
                \<longrightarrow> fst (canActivate_try g ctx now cache) = Inl e2
                    \<and> fst (canActivate g ctx now cache) = Inr False)
               \<and> (fst (getauthchecksFromCache g ctx now cache) = Inr (SingleCheck c1)
                \<longrightarrow> fst (canActivate_try g ctx now cache)
                      = Inl (TypeError ''authchecks is not iterable'')
                    \<and> fst (canActivate g ctx now cache) = Inr False)
               \<and> (fst (getauthchecksFromCache g ctx now cache) = Inr (Checks (pre @ c # post))
                  \<and> (\<forall>c'\<in>set pre.
                        isAuthorized c'
                          \<lparr>requestingEntity = auth, orgIdForTargetResource = orgId,
                           userIdForTargetResource = params req ''userId''\<rparr> = Inr True)
                  \<and> isAuthorized c
                        \<lparr>requestingEntity = auth, orgIdForTargetResource = orgId,
                         userIdForTargetResource = params req ''userId''\<rparr> = Inl e3
                \<longrightarrow> fst (canActivate_try g ctx now cache) = Inl e3
                    \<and> fst (canActivate g ctx now cache) = Inr False)))"
proof -
  have never_rejects: "\<exists>b. fst (canActivate g ctx now cache) = Inr b"
    by (rule canActivate_resolves)
  have caught: "\<forall>e. fst (canActivate_try g ctx now cache) = Inl e
                  \<longrightarrow> canActivate g ctx now cache
                        = (Inr False,
                           fst (snd (canActivate_try g ctx now cache))
                             @ [Log ErrorLevel ''Error in ResourceGuard''],
                           snd (snd (canActivate_try g ctx now cache)))"
    using canActivate_catch_exact [of g ctx now cache] by blast
  have no_allow: "fst (canActivate g ctx now cache) = Inr True
                    \<longrightarrow> fst (canActivate_try g ctx now cache) = Inr True"
    using canActivate_allows_iff [of g ctx now cache] by simp
  have no_request: "getRequest ctx = None
                      \<longrightarrow> canActivate g ctx now cache
                            = (Inr False, [Log ErrorLevel ''Error in ResourceGuard''], cache)"
    using canActivate_try_no_request [of ctx g now cache]
    by (auto simp: canActivate_def)
  have sources:
    "(params req ''organizationSlug'' = Some slug \<and> slug \<noteq> []
        \<and> organizationCache_findOne g slug = Inl e1
      \<longrightarrow> canActivate_try g ctx now cache
            = (Inl e1,
               [Log TraceLevel ''AuthorizationGuard.canActivate'',
                Log DebugLevel ''AuthorizationGuard'',
                Log DebugLevel ''organizationSlug found'', FindOne slug],
               cache)
          \<and> fst (canActivate g ctx now cache) = Inr False)
     \<and> (fst (getOrgIdFromSlug g (params req ''organizationSlug'')) = Inr orgId
      \<longrightarrow> (fst (getauthchecksFromCache g ctx now cache) = Inl e4
           \<longrightarrow> fst (canActivate_try g ctx now cache) = Inl e4
               \<and> fst (canActivate g ctx now cache) = Inr False)
          \<and> (cache_get now cache (authcheckCacheKey ctx) = None
             \<and> (reflector_get g ''authorization'' (getHandler ctx) = Inl e2
                  \<or> (\<exists>h. reflector_get g ''authorization'' (getHandler ctx) = Inr h
                          \<and> \<not> truthy h
                          \<and> reflector_get g ''authorization'' (getClass ctx) = Inl e2))
           \<longrightarrow> fst (canActivate_try g ctx now cache) = Inl e2
               \<and> fst (canActivate g ctx now cache) = Inr False)
          \<and> (fst (getauthchecksFromCache g ctx now cache) = Inr (SingleCheck c1)
           \<longrightarrow> fst (canActivate_try g ctx now cache)
                 = Inl (TypeError ''authchecks is not iterable'')
               \<and> fst (canActivate g ctx now cache) = Inr False)
          \<and> (fst (getauthchecksFromCache g ctx now cache) = Inr (Checks (pre @ c # post))
             \<and> (\<forall>c'\<in>set pre.
                   isAuthorized c'
                     \<lparr>requestingEntity = auth, orgIdForTargetResource = orgId,
                      userIdForTargetResource = params req ''userId''\<rparr> = Inr True)
             \<and> isAuthorized c
                   \<lparr>requestingEntity = auth, orgIdForTargetResource = orgId,
                    userIdForTargetResource = params req ''userId''\<rparr> = Inl e3
           \<longrightarrow> fst (canActivate_try g ctx now cache) = Inl e3
               \<and> fst (canActivate g ctx now cache) = Inr False))"
    if reach: "getRequest ctx = Some req \<and> \<not> publicRouteRegex_test g (originalUrl req)
                 \<and> authorization req = Some auth"
  proof (intro conjI impI)
    assume a: "params req ''organizationSlug'' = Some slug \<and> slug \<noteq> []
                 \<and> organizationCache_findOne g slug = Inl e1"
    show tr: "canActivate_try g ctx now cache
                = (Inl e1,
                   [Log TraceLevel ''AuthorizationGuard.canActivate'',
                    Log DebugLevel ''AuthorizationGuard'',
                    Log DebugLevel ''organizationSlug found'', FindOne slug],
                   cache)"
      using canActivate_try_findOne_throws [of ctx req g auth slug e1 now cache] reach a by simp
    show "fst (canActivate g ctx now cache) = Inr False"
      using canActivate_catches [of g ctx now cache e1] tr by simp
  next
    assume o: "fst (getOrgIdFromSlug g (params req ''organizationSlug'')) = Inr orgId"
    assume a: "fst (getauthchecksFromCache g ctx now cache) = Inl e4"
    show tr: "fst (canActivate_try g ctx now cache) = Inl e4"
      using canActivate_try_resolution_throws [of ctx req g auth orgId now cache e4] reach o a
      by simp
    show "fst (canActivate g ctx now cache) = Inr False"
      using canActivate_catches [of g ctx now cache e4] tr by simp
  next
    assume o: "fst (getOrgIdFromSlug g (params req ''organizationSlug'')) = Inr orgId"
    assume a: "cache_get now cache (authcheckCacheKey ctx) = None
                 \<and> (reflector_get g ''authorization'' (getHandler ctx) = Inl e2
                      \<or> (\<exists>h. reflector_get g ''authorization'' (getHandler ctx) = Inr h
                              \<and> \<not> truthy h
                              \<and> reflector_get g ''authorization'' (getClass ctx) = Inl e2))"
    have "fst (getauthcheck g ctx) = Inl e2"
      using getauthcheck_throws [of g ctx e2] a by simp
    then have "fst (getauthchecksFromCache g ctx now cache) = Inl e2"
      using getauthchecksFromCache_miss [of now cache ctx g] a by simp
    then show tr: "fst (canActivate_try g ctx now cache) = Inl e2"
      using canActivate_try_resolution_throws [of ctx req g auth orgId now cache e2] reach o
      by simp
    show "fst (canActivate g ctx now cache) = Inr False"
      using canActivate_catches [of g ctx now cache e2] tr by simp
  next
    assume o: "fst (getOrgIdFromSlug g (params req ''organizationSlug'')) = Inr orgId"
    assume a: "fst (getauthchecksFromCache g ctx now cache) = Inr (SingleCheck c1)"
    show tr: "fst (canActivate_try g ctx now cache)
                = Inl (TypeError ''authchecks is not iterable'')"
      using canActivate_try_single_check [of ctx req g auth orgId now cache c1] reach o a by simp
    show "fst (canActivate g ctx now cache) = Inr False"
      using canActivate_catches [of g ctx now cache "TypeError ''authchecks is not iterable''"] tr
      by simp
  next
    assume o: "fst (getOrgIdFromSlug g (params req ''organizationSlug'')) = Inr orgId"
    assume a: "fst (getauthchecksFromCache g ctx now cache) = Inr (Checks (pre @ c # post))
                 \<and> (\<forall>c'\<in>set pre.
                       isAuthorized c'
                         \<lparr>requestingEntity = auth, orgIdForTargetResource = orgId,
                          userIdForTargetResource = params req ''userId''\<rparr> = Inr True)
                 \<and> isAuthorized c
                       \<lparr>requestingEntity = auth, orgIdForTargetResource = orgId,
                        userIdForTargetResource = params req ''userId''\<rparr> = Inl e3"
    show tr: "fst (canActivate_try g ctx now cache) = Inl e3"
      using canActivate_try_rule_throws [of ctx req g auth orgId now cache pre c post e3]
        reach o a
      by simp
    show "fst (canActivate g ctx now cache) = Inr False"
      using canActivate_catches [of g ctx now cache e3] tr by simp
  qed
  from never_rejects caught no_allow no_request sources show ?thesis
    by blast
qed

theorem error_containment_witness:
  "getRequest \<lparr>getRequest = None, getClass = cats_controller,
                getHandler = handler_fn 1 ''handle''\<rparr> = (None :: string request option)
   \<and> canActivate example_guard
        \<lparr>getRequest = None, getClass = cats_controller,
         getHandler = handler_fn 1 ''handle''\<rparr> 0 Map.empty
       = (Inr False, [Log ErrorLevel ''Error in ResourceGuard''], Map.empty)
   \<and> organizationCache_findOne example_guard ''down'' = Inl (Thrown ''repository unavailable'')
   \<and> canActivate_try example_guard
        (route 6 ''/orgs/down/cats'' (Some ''alice'') [''organizationSlug'' \<mapsto> ''down''])
        0 Map.empty
       = (Inl (Thrown ''repository unavailable''),
          [Log TraceLevel ''AuthorizationGuard.canActivate'',
           Log DebugLevel ''AuthorizationGuard'',
           Log DebugLevel ''organizationSlug found'', FindOne ''down''],
          Map.empty)
   \<and> fst (canActivate example_guard
             (route 6 ''/orgs/down/cats'' (Some ''alice'') [''organizationSlug'' \<mapsto> ''down''])
             0 Map.empty) = Inr False
   \<and> reflector_get example_guard ''authorization''
        (getHandler (route 7 ''/cats'' (Some ''alice'') Map.empty))
       = Inl (Thrown ''metadata unavailable'')
   \<and> fst (canActivate_try example_guard (route 7 ''/cats'' (Some ''alice'') Map.empty) 0 Map.empty)
       = Inl (Thrown ''metadata unavailable'')
   \<and> fst (canActivate example_guard (route 7 ''/cats'' (Some ''alice'') Map.empty) 0 Map.empty)
       = Inr False
   \<and> fst (getauthchecksFromCache example_guard (route 8 ''/cats'' (Some ''alice'') Map.empty)
             0 Map.empty) = Inr (SingleCheck pass_check)
   \<and> fst (canActivate_try example_guard (route 8 ''/cats'' (Some ''alice'') Map.empty) 0 Map.empty)
       = Inl (TypeError ''authchecks is not iterable'')
   \<and> fst (canActivate example_guard (route 8 ''/cats'' (Some ''alice'') Map.empty) 0 Map.empty)
       = Inr False
   \<and> isAuthorized throw_check
        \<lparr>requestingEntity = ''alice'', orgIdForTargetResource = None,
         userIdForTargetResource = None\<rparr> = Inl (Thrown ''rule failed'')
   \<and> fst (canActivate_try example_guard (route 3 ''/cats'' (Some ''alice'') Map.empty) 0 Map.empty)
       = Inl (Thrown ''rule failed'')
   \<and> fst (canActivate example_guard (route 3 ''/cats'' (Some ''alice'') Map.empty) 0 Map.empty)
       = Inr False
   \<and> fst (canActivate example_guard (route 6 ''/cats'' (Some ''alice'') Map.empty) 0 Map.empty)
       = Inr True
   \<and> fst (canActivate_try example_guard (route 6 ''/cats'' (Some ''alice'') Map.empty) 0 Map.empty)
       = Inr True"
proof -
  let ?none = "\<lparr>getRequest = None, getClass = cats_controller,
                getHandler = handler_fn 1 ''handle''\<rparr> :: string execution_context"
  let ?rq = "example_request ''/cats'' (Some ''alice'') Map.empty"
  let ?rd = "example_request ''/orgs/down/cats'' (Some ''alice'') [''organizationSlug'' \<mapsto> ''down'']"
  let ?cd = "route 6 ''/orgs/down/cats'' (Some ''alice'') [''organizationSlug'' \<mapsto> ''down'']"
  let ?c3 = "route 3 ''/cats'' (Some ''alice'') Map.empty"
  let ?c6 = "route 6 ''/cats'' (Some ''alice'') Map.empty"
  let ?c7 = "route 7 ''/cats'' (Some ''alice'') Map.empty"
  let ?c8 = "route 8 ''/cats'' (Some ''alice'') Map.empty"
  let ?p = "\<lparr>requestingEntity = ''alice'', orgIdForTargetResource = None,
             userIdForTargetResource = params ?rq ''userId''\<rparr>"
  have n1: "getRequest ?none = None"
    by simp
  have none: "canActivate example_guard ?none 0 Map.empty
                = (Inr False, [Log ErrorLevel ''Error in ResourceGuard''], Map.empty)"
    using error_containment [of example_guard ?none 0 Map.empty] n1 by blast
  have req: "getRequest c = Some ?rq \<and> \<not> publicRouteRegex_test example_guard (originalUrl ?rq)
               \<and> authorization ?rq = Some ''alice''"
    if "c = ?c3 \<or> c = ?c6 \<or> c = ?c7 \<or> c = ?c8" for c
    using that by (auto simp: example_defs)
  have org: "fst (getOrgIdFromSlug example_guard (params ?rq ''organizationSlug'')) = Inr None"
    by (simp add: example_defs getOrgIdFromSlug_def)
  have uid: "params ?rq ''userId'' = None"
    by (simp add: example_defs)
  have miss: "cache_get 0 (Map.empty :: string authchecks cache_store) k = None" for k
    by (simp add: cache_get_def)
  have d1: "getRequest ?cd = Some ?rd \<and> \<not> publicRouteRegex_test example_guard (originalUrl ?rd)
              \<and> authorization ?rd = Some ''alice''"
    by (simp add: example_defs)
  have d2: "params ?rd ''organizationSlug'' = Some ''down'' \<and> ''down'' \<noteq> []
              \<and> organizationCache_findOne example_guard ''down''
                  = Inl (Thrown ''repository unavailable'')"
    by (simp add: example_defs)
  have down: "canActivate_try example_guard ?cd 0 Map.empty
                = (Inl (Thrown ''repository unavailable''),
                   [Log TraceLevel ''AuthorizationGuard.canActivate'',
                    Log DebugLevel ''AuthorizationGuard'',
                    Log DebugLevel ''organizationSlug found'', FindOne ''down''],
                   Map.empty)
              \<and> fst (canActivate example_guard ?cd 0 Map.empty) = Inr False"
    using error_containment [where g = example_guard and ctx = ?cd and now = 0
        and cache = Map.empty and req = ?rd and auth = "''alice''" and slug = "''down''"
        and ?e1.0 = "Thrown ''repository unavailable''"] d1 d2
    by blast
  have m1: "reflector_get example_guard ''authorization'' (getHandler ?c7)
              = Inl (Thrown ''metadata unavailable'')"
    by (simp add: example_defs)
  have meta: "fst (canActivate_try example_guard ?c7 0 Map.empty)
                = Inl (Thrown ''metadata unavailable'')
              \<and> fst (canActivate example_guard ?c7 0 Map.empty) = Inr False"
    using error_containment [where g = example_guard and ctx = ?c7 and now = 0
        and cache = Map.empty and req = ?rq and auth = "''alice''" and orgId = None
        and ?e2.0 = "Thrown ''metadata unavailable''"] req [of ?c7] org m1 miss
    by blast
  have s1: "fst (getauthchecksFromCache example_guard ?c8 0 Map.empty)
              = Inr (SingleCheck pass_check)"
    by (simp add: example_defs getauthchecksFromCache_def getauthcheck_def wrap_def cache_get_def)
  have single: "fst (canActivate_try example_guard ?c8 0 Map.empty)
                  = Inl (TypeError ''authchecks is not iterable'')
                \<and> fst (canActivate example_guard ?c8 0 Map.empty) = Inr False"
    using error_containment [where g = example_guard and ctx = ?c8 and now = 0
        and cache = Map.empty and req = ?rq and auth = "''alice''" and orgId = None
        and ?c1.0 = pass_check] req [of ?c8] org s1
    by blast
  have r1: "fst (getauthchecksFromCache example_guard ?c3 0 Map.empty)
              = Inr (Checks ([pass_check] @ throw_check # []))"
    by (simp add: example_defs getauthchecksFromCache_def getauthcheck_def wrap_def cache_get_def)
  have r2: "(\<forall>c'\<in>set [pass_check]. isAuthorized c' ?p = Inr True)
            \<and> isAuthorized throw_check ?p = Inl (Thrown ''rule failed'')"
    by (simp add: pass_check_def throw_check_def)
  have rule: "fst (canActivate_try example_guard ?c3 0 Map.empty) = Inl (Thrown ''rule failed'')
              \<and> fst (canActivate example_guard ?c3 0 Map.empty) = Inr False"
    using error_containment [where g = example_guard and ctx = ?c3 and now = 0
        and cache = Map.empty and req = ?rq and auth = "''alice''" and orgId = None
        and pre = "[pass_check]" and c = throw_check and post = "[]"
        and ?e3.0 = "Thrown ''rule failed''"] req [of ?c3] org r1 r2
    by blast
  have r3: "isAuthorized throw_check
              \<lparr>requestingEntity = ''alice'', orgIdForTargetResource = None,
               userIdForTargetResource = None\<rparr> = Inl (Thrown ''rule failed'')"
    by (simp add: throw_check_def)
  have a1: "fst (canActivate example_guard ?c6 0 Map.empty) = Inr True"
    by (simp add: example_defs method_defs)
  have allow: "fst (canActivate_try example_guard ?c6 0 Map.empty) = Inr True"
    using error_containment [of example_guard ?c6 0 Map.empty] a1 by blast
  show ?thesis
    using n1 none d2 down m1 meta s1 single r3 rule a1 allow by blast
qed

subsection \<open>Claims about rule evaluation\<close>

text \<open>
  C5, in-order and short-circuiting evaluation. Let the request reach the loop with a
  non-empty resolved list \<open>cs\<close>, and let \<open>p\<close> be the argument built at lines 84 to 88.
  If \<open>cs = pre @ c # post\<close> where every rule of \<open>pre\<close> returns true and \<open>c\<close> returns
  false, the result is false and the rules invoked are exactly \<open>pre @ [c]\<close>, in that order:
  no rule of \<open>post\<close> is invoked. If every rule returns true the result is true and the
  rules invoked are exactly \<open>cs\<close>, in order. If any rule returns false the result is false.
\<close>

theorem rules_in_order_short_circuit:
  assumes "getRequest ctx = Some req"
    and "\<not> publicRouteRegex_test g (originalUrl req)"
    and "authorization req = Some auth"
    and "getOrgIdFromSlug g (params req ''organizationSlug'') = (Inr orgId, evs1)"
    and "getauthchecksFromCache g ctx now cache = (Inr (Checks cs), evs2, cache')"
    and "cs \<noteq> []"
    and "p = \<lparr>requestingEntity = auth, orgIdForTargetResource = orgId,
               userIdForTargetResource = params req ''userId''\<rparr>"
  shows "(cs = pre @ c # post \<and> (\<forall>c'\<in>set pre. isAuthorized c' p = Inr True)
            \<and> isAuthorized c p = Inr False
          \<longrightarrow> canActivate g ctx now cache =
                (Inr False,
                 [Log TraceLevel ''AuthorizationGuard.canActivate'',
                  Log DebugLevel ''AuthorizationGuard''] @ evs1 @ evs2
                   @ map (\<lambda>c. IsAuthorized (constructor_name c) p) (pre @ [c])
                   @ [Log WarnLevel (''authcheck failed for authcheck '' @ constructor_name c)],
                 cache'))
         \<and> ((\<forall>c\<in>set cs. isAuthorized c p = Inr True)
          \<longrightarrow> canActivate g ctx now cache =
                (Inr True,
                 [Log TraceLevel ''AuthorizationGuard.canActivate'',
                  Log DebugLevel ''AuthorizationGuard''] @ evs1 @ evs2
                   @ map (\<lambda>c. IsAuthorized (constructor_name c) p) cs
                   @ [Log DebugLevel ''authcheck passed''],
                 cache'))
         \<and> ((\<exists>c\<in>set cs. isAuthorized c p = Inr False)
          \<longrightarrow> fst (canActivate g ctx now cache) = Inr False)"
proof (intro conjI impI)
  assume a: "cs = pre @ c # post \<and> (\<forall>c'\<in>set pre. isAuthorized c' p = Inr True)
               \<and> isAuthorized c p = Inr False"
  then have run: "run_authchecks cs p
                    = (Inr False,
                       map (\<lambda>c. IsAuthorized (constructor_name c) p) (pre @ [c])
                         @ [Log WarnLevel (''authcheck failed for authcheck '' @ constructor_name c)])"
    using run_authchecks_first_fail [of pre p c post] by simp
  show "canActivate g ctx now cache =
          (Inr False,
           [Log TraceLevel ''AuthorizationGuard.canActivate'',
            Log DebugLevel ''AuthorizationGuard''] @ evs1 @ evs2
             @ map (\<lambda>c. IsAuthorized (constructor_name c) p) (pre @ [c])
             @ [Log WarnLevel (''authcheck failed for authcheck '' @ constructor_name c)],
           cache')"
    using canActivate_try_loop [OF assms(1-6) run [unfolded assms(7)]] assms(7)
    by (simp add: canActivate_def)
next
  assume "\<forall>c\<in>set cs. isAuthorized c p = Inr True"
  then have run: "run_authchecks cs p
                    = (Inr True, map (\<lambda>c. IsAuthorized (constructor_name c) p) cs)"
    by (rule run_authchecks_all_pass)
  show "canActivate g ctx now cache =
          (Inr True,
           [Log TraceLevel ''AuthorizationGuard.canActivate'',
            Log DebugLevel ''AuthorizationGuard''] @ evs1 @ evs2
             @ map (\<lambda>c. IsAuthorized (constructor_name c) p) cs
             @ [Log DebugLevel ''authcheck passed''],
           cache')"
    using canActivate_try_loop [OF assms(1-6) run [unfolded assms(7)]] assms(7)
    by (simp add: canActivate_def)
next
  assume "\<exists>c\<in>set cs. isAuthorized c p = Inr False"
  then have nt: "fst (run_authchecks cs p) \<noteq> Inr True"
    using run_authchecks_true_iff [of cs p] by auto
  obtain r evs3 where run: "run_authchecks cs p = (r, evs3)"
    by (cases "run_authchecks cs p") auto
  have "fst (canActivate_try g ctx now cache) = r"
    using canActivate_try_loop [OF assms(1-6) run [unfolded assms(7)]] by simp
  moreover have "r \<noteq> Inr True" using nt run by simp
  ultimately have "fst (canActivate_try g ctx now cache) \<noteq> Inr True" by simp
  then have "fst (canActivate g ctx now cache) \<noteq> Inr True"
    using canActivate_allows_iff [of g ctx now cache] by simp
  then show "fst (canActivate g ctx now cache) = Inr False"
    using canActivate_resolves [of g ctx now cache] by auto
qed

theorem rules_in_order_short_circuit_witness:
  "getRequest (route 1 ''/cats'' (Some ''alice'') Map.empty)
     = Some (example_request ''/cats'' (Some ''alice'') Map.empty)
   \<and> \<not> publicRouteRegex_test example_guard
          (originalUrl (example_request ''/cats'' (Some ''alice'') Map.empty))
   \<and> authorization (example_request ''/cats'' (Some ''alice'') Map.empty) = Some ''alice''
   \<and> getOrgIdFromSlug example_guard
        (params (example_request ''/cats'' (Some ''alice'') Map.empty) ''organizationSlug'')
       = (Inr None, [Log DebugLevel ''organizationSlug not found''])
   \<and> getauthchecksFromCache example_guard (route 1 ''/cats'' (Some ''alice'') Map.empty)
        0 Map.empty
       = (Inr (Checks [pass_check, fail_check, pass_check]),
          [Wrap (authcheckCacheKey (route 1 ''/cats'' (Some ''alice'') Map.empty)) 604800,
           ReflectorGet ''authorization'' (handler_fn 1 ''handle'')],
          [authcheckCacheKey (route 1 ''/cats'' (Some ''alice'') Map.empty)
             \<mapsto> (Checks [pass_check, fail_check, pass_check], 604800)])
   \<and> canActivate example_guard (route 1 ''/cats'' (Some ''alice'') Map.empty) 0 Map.empty
       = (Inr False,
          [Log TraceLevel ''AuthorizationGuard.canActivate'',
           Log DebugLevel ''AuthorizationGuard'',
           Log DebugLevel ''organizationSlug not found'',
           Wrap (authcheckCacheKey (route 1 ''/cats'' (Some ''alice'') Map.empty)) 604800,
           ReflectorGet ''authorization'' (handler_fn 1 ''handle''),
           IsAuthorized ''PassCheck''
             \<lparr>requestingEntity = ''alice'', orgIdForTargetResource = None,
              userIdForTargetResource = None\<rparr>,
           IsAuthorized ''FailCheck''
             \<lparr>requestingEntity = ''alice'', orgIdForTargetResource = None,
              userIdForTargetResource = None\<rparr>,
           Log WarnLevel ''authcheck failed for authcheck FailCheck''],
          [authcheckCacheKey (route 1 ''/cats'' (Some ''alice'') Map.empty)
             \<mapsto> (Checks [pass_check, fail_check, pass_check], 604800)])
   \<and> isAuthorized pass_check
         \<lparr>requestingEntity = ''alice'', orgIdForTargetResource = Some ''org_1'',
          userIdForTargetResource = None\<rparr> = Inr True
   \<and> isAuthorized org_check
         \<lparr>requestingEntity = ''alice'', orgIdForTargetResource = Some ''org_1'',
          userIdForTargetResource = None\<rparr> = Inr True
   \<and> fst (canActivate example_guard
             (route 4 ''/cats'' (Some ''alice'') [''organizationSlug'' \<mapsto> ''acme'']) 0 Map.empty)
       = Inr True"
proof -
  let ?req = "example_request ''/cats'' (Some ''alice'') Map.empty"
  let ?ctx = "route 1 ''/cats'' (Some ''alice'') Map.empty"
  let ?req4 = "example_request ''/cats'' (Some ''alice'') [''organizationSlug'' \<mapsto> ''acme'']"
  let ?ctx4 = "route 4 ''/cats'' (Some ''alice'') [''organizationSlug'' \<mapsto> ''acme'']"
  let ?p4 = "\<lparr>requestingEntity = ''alice'', orgIdForTargetResource = Some ''org_1'',
              userIdForTargetResource = params ?req4 ''userId''\<rparr>"
  have k1: "getRequest ?ctx4 = Some ?req4"
    by (simp add: example_defs)
  have k2: "\<not> publicRouteRegex_test example_guard (originalUrl ?req4)"
    by (simp add: example_defs)
  have k3: "authorization ?req4 = Some ''alice''"
    by (simp add: example_defs)
  have k4: "getOrgIdFromSlug example_guard (params ?req4 ''organizationSlug'')
              = (Inr (Some ''org_1''),
                 [Log DebugLevel ''organizationSlug found'', FindOne ''acme'',
                  Log DebugLevel ''orgId found for slug''])"
    by (simp add: example_defs getOrgIdFromSlug_def)
  have k5: "getauthchecksFromCache example_guard ?ctx4 0 Map.empty
              = (Inr (Checks [pass_check, org_check]),
                 [Wrap (authcheckCacheKey ?ctx4) 604800,
                  ReflectorGet ''authorization'' (handler_fn 4 ''handle'')],
                 [authcheckCacheKey ?ctx4 \<mapsto> (Checks [pass_check, org_check], 604800)])"
    by (simp add: example_defs getauthchecksFromCache_def getauthcheck_def wrap_def cache_get_def)
  have k6: "[pass_check, org_check] \<noteq> []"
    by simp
  have k7: "?p4 = ?p4"
    by simp
  have k8: "\<forall>c\<in>set [pass_check, org_check]. isAuthorized c ?p4 = Inr True"
    by (simp add: pass_check_def org_check_def)
  have allow: "fst (canActivate example_guard ?ctx4 0 Map.empty) = Inr True"
    using rules_in_order_short_circuit [OF k1 k2 k3 k4 k5 k6 k7] k8 by simp
  have k8': "isAuthorized pass_check
               \<lparr>requestingEntity = ''alice'', orgIdForTargetResource = Some ''org_1'',
                userIdForTargetResource = None\<rparr> = Inr True
             \<and> isAuthorized org_check
                 \<lparr>requestingEntity = ''alice'', orgIdForTargetResource = Some ''org_1'',
                  userIdForTargetResource = None\<rparr> = Inr True"
    by (simp add: pass_check_def org_check_def)
  let ?p = "\<lparr>requestingEntity = ''alice'', orgIdForTargetResource = None,
             userIdForTargetResource = params ?req ''userId''\<rparr>"
  have h1: "getRequest ?ctx = Some ?req"
    by (simp add: example_defs)
  have h2: "\<not> publicRouteRegex_test example_guard (originalUrl ?req)"
    by (simp add: example_defs)
  have h3: "authorization ?req = Some ''alice''"
    by (simp add: example_defs)
  have h4: "getOrgIdFromSlug example_guard (params ?req ''organizationSlug'')
              = (Inr None, [Log DebugLevel ''organizationSlug not found''])"
    by (simp add: example_defs getOrgIdFromSlug_def)
  have h5: "getauthchecksFromCache example_guard ?ctx 0 Map.empty
              = (Inr (Checks [pass_check, fail_check, pass_check]),
                 [Wrap (authcheckCacheKey ?ctx) 604800,
                  ReflectorGet ''authorization'' (handler_fn 1 ''handle'')],
                 [authcheckCacheKey ?ctx
                    \<mapsto> (Checks [pass_check, fail_check, pass_check], 604800)])"
    by (simp add: example_defs getauthchecksFromCache_def getauthcheck_def wrap_def cache_get_def)
  have h6: "[pass_check, fail_check, pass_check] \<noteq> []"
    by simp
  have h7: "?p = ?p"
    by simp
  have split: "[pass_check, fail_check, pass_check] = [pass_check] @ fail_check # [pass_check]
                 \<and> (\<forall>c'\<in>set [pass_check]. isAuthorized c' ?p = Inr True)
                 \<and> isAuthorized fail_check ?p = Inr False"
    by (simp add: pass_check_def fail_check_def)
  have "canActivate example_guard ?ctx 0 Map.empty
          = (Inr False,
             [Log TraceLevel ''AuthorizationGuard.canActivate'',
              Log DebugLevel ''AuthorizationGuard''] @ [Log DebugLevel ''organizationSlug not found'']
               @ [Wrap (authcheckCacheKey ?ctx) 604800,
                  ReflectorGet ''authorization'' (handler_fn 1 ''handle'')]
               @ map (\<lambda>c. IsAuthorized (constructor_name c) ?p) ([pass_check] @ [fail_check])
               @ [Log WarnLevel (''authcheck failed for authcheck '' @ constructor_name fail_check)],
             [authcheckCacheKey ?ctx
                \<mapsto> (Checks [pass_check, fail_check, pass_check], 604800)])"
    using rules_in_order_short_circuit [OF h1 h2 h3 h4 h5 h6 h7,
        where pre = "[pass_check]" and c = fail_check and post = "[pass_check]"] split
    by blast
  then have "canActivate example_guard ?ctx 0 Map.empty
          = (Inr False,
             [Log TraceLevel ''AuthorizationGuard.canActivate'',
              Log DebugLevel ''AuthorizationGuard'',
              Log DebugLevel ''organizationSlug not found'',
              Wrap (authcheckCacheKey ?ctx) 604800,
              ReflectorGet ''authorization'' (handler_fn 1 ''handle''),
              IsAuthorized ''PassCheck''
                \<lparr>requestingEntity = ''alice'', orgIdForTargetResource = None,
                 userIdForTargetResource = None\<rparr>,
              IsAuthorized ''FailCheck''
                \<lparr>requestingEntity = ''alice'', orgIdForTargetResource = None,
                 userIdForTargetResource = None\<rparr>,
              Log WarnLevel ''authcheck failed for authcheck FailCheck''],
             [authcheckCacheKey ?ctx
                \<mapsto> (Checks [pass_check, fail_check, pass_check], 604800)])"
    by (simp add: pass_check_def fail_check_def example_request_def)
  with h1 h2 h3 h4 h5 allow k8' show ?thesis by blast
qed

subsection \<open>Claims about rule resolution\<close>

text \<open>
  C6, handler precedence. When the handler's own metadata is present (truthy),
  \<open>getauthcheck\<close> returns exactly that value and reads nothing else: the controller's
  metadata is not looked up, whatever it holds. When the handler's metadata is absent the
  result is the controller's metadata. The controller's metadata is read only in that case.
\<close>

theorem handler_precedence:
  "(reflector_get g ''authorization'' (getHandler ctx) = Inr h \<and> truthy h
      \<longrightarrow> getauthcheck g ctx = (Inr h, [ReflectorGet ''authorization'' (getHandler ctx)]))
   \<and> (reflector_get g ''authorization'' (getHandler ctx) = Inr h \<and> \<not> truthy h
      \<longrightarrow> getauthcheck g ctx
            = (reflector_get g ''authorization'' (getClass ctx),
               [ReflectorGet ''authorization'' (getHandler ctx),
                ReflectorGet ''authorization'' (getClass ctx)]))
   \<and> (getClass ctx \<noteq> getHandler ctx
        \<and> ReflectorGet ''authorization'' (getClass ctx) \<in> set (snd (getauthcheck g ctx))
      \<longrightarrow> (\<exists>h'. reflector_get g ''authorization'' (getHandler ctx) = Inr h' \<and> \<not> truthy h'))"
  by (auto simp: getauthcheck_def split: sum.splits if_splits)

theorem handler_precedence_witness:
  "reflector_get example_guard ''authorization''
       (getHandler (route 5 ''/cats'' (Some ''alice'') Map.empty)) = Inr (Checks [fail_check])
   \<and> truthy (Checks [fail_check])
   \<and> reflector_get example_guard ''authorization''
       (getClass (route 5 ''/cats'' (Some ''alice'') Map.empty)) = Inr (Checks [pass_check])
   \<and> getauthcheck example_guard (route 5 ''/cats'' (Some ''alice'') Map.empty)
       = (Inr (Checks [fail_check]),
          [ReflectorGet ''authorization''
             (getHandler (route 5 ''/cats'' (Some ''alice'') Map.empty))])
   \<and> reflector_get example_guard ''authorization''
       (getHandler (route 6 ''/cats'' (Some ''alice'') Map.empty)) = Inr Undefined
   \<and> \<not> truthy (Undefined :: string authchecks)
   \<and> fst (getauthcheck example_guard (route 6 ''/cats'' (Some ''alice'') Map.empty))
       = Inr (Checks [pass_check])"
proof -
  let ?c5 = "route 5 ''/cats'' (Some ''alice'') Map.empty"
  let ?c6 = "route 6 ''/cats'' (Some ''alice'') Map.empty"
  have h1: "reflector_get example_guard ''authorization'' (getHandler ?c5)
              = Inr (Checks [fail_check])"
    by (simp add: example_defs)
  have h2: "reflector_get example_guard ''authorization'' (getClass ?c5)
              = Inr (Checks [pass_check])"
    by (simp add: example_defs)
  have h3: "reflector_get example_guard ''authorization'' (getHandler ?c6) = Inr Undefined"
    by (simp add: example_defs)
  have h4: "reflector_get example_guard ''authorization'' (getClass ?c6)
              = Inr (Checks [pass_check])"
    by (simp add: example_defs)
  show ?thesis
    using h1 h2 h3 h4
      handler_precedence [of example_guard ?c5 "Checks [fail_check]"]
      handler_precedence [of example_guard ?c6 Undefined]
    by simp
qed

text \<open>
  C9, deterministic recomputation. The result of \<open>getauthcheck\<close> is a function of the
  handler's and the controller's metadata alone: two invocations that see the same two
  metadata values return the same ordered rule list, whatever the request, the time and
  the contents of the cache. Hence two populations of the cache for the same metadata,
  at any two times and from any two cache states that miss, return the same value and
  store the same value.
\<close>

theorem getauthcheck_deterministic:
  assumes "reflector_get g1 ''authorization'' (getHandler c1)
             = reflector_get g2 ''authorization'' (getHandler c2)"
    and "reflector_get g1 ''authorization'' (getClass c1)
             = reflector_get g2 ''authorization'' (getClass c2)"
  shows "fst (getauthcheck g1 c1) = fst (getauthcheck g2 c2)
         \<and> (cache_get t1 cacheA (authcheckCacheKey c1) = None
              \<and> cache_get t2 cacheB (authcheckCacheKey c2) = None
            \<longrightarrow> fst (getauthchecksFromCache g1 c1 t1 cacheA)
                  = fst (getauthchecksFromCache g2 c2 t2 cacheB)
                \<and> (\<forall>v. fst (getauthchecksFromCache g1 c1 t1 cacheA) = Inr v
                      \<longrightarrow> map_option fst
                            (snd (snd (getauthchecksFromCache g1 c1 t1 cacheA))
                               (authcheckCacheKey c1)) = Some v
                          \<and> map_option fst
                              (snd (snd (getauthchecksFromCache g2 c2 t2 cacheB))
                                 (authcheckCacheKey c2)) = Some v))"
proof -
  have same: "fst (getauthcheck g1 c1) = fst (getauthcheck g2 c2)"
    using assms by (simp add: getauthcheck_def split: sum.splits)
  have pop: "cache_get t cache (authcheckCacheKey c) = None
               \<Longrightarrow> fst (getauthchecksFromCache g c t cache) = fst (getauthcheck g c)
                   \<and> (\<forall>v. fst (getauthcheck g c) = Inr v
                         \<longrightarrow> map_option fst
                               (snd (snd (getauthchecksFromCache g c t cache))
                                  (authcheckCacheKey c)) = Some v)"
    for g :: "'a guard" and c t cache
    by (cases "getauthcheck g c")
       (auto simp: getauthchecksFromCache_def wrap_def split: sum.splits)
  show ?thesis
    using same pop [of t1 cacheA c1 g1] pop [of t2 cacheB c2 g2] by auto
qed

theorem getauthcheck_deterministic_witness:
  "reflector_get example_guard ''authorization''
       (getHandler (route 1 ''/cats'' (Some ''alice'') Map.empty))
     = reflector_get example_guard ''authorization''
         (getHandler (route 1 ''/cats/7'' (Some ''bob'') [''userId'' \<mapsto> ''7'']))
   \<and> reflector_get example_guard ''authorization''
       (getClass (route 1 ''/cats'' (Some ''alice'') Map.empty))
     = reflector_get example_guard ''authorization''
         (getClass (route 1 ''/cats/7'' (Some ''bob'') [''userId'' \<mapsto> ''7'']))
   \<and> fst (getauthcheck example_guard (route 1 ''/cats'' (Some ''alice'') Map.empty))
     = fst (getauthcheck example_guard (route 1 ''/cats/7'' (Some ''bob'') [''userId'' \<mapsto> ''7'']))
   \<and> fst (getauthcheck example_guard (route 1 ''/cats'' (Some ''alice'') Map.empty))
     = Inr (Checks [pass_check, fail_check, pass_check])
   \<and> cache_get 0 (Map.empty :: string authchecks cache_store)
        (authcheckCacheKey (route 1 ''/cats'' (Some ''alice'') Map.empty)) = None
   \<and> cache_get 5 [''other'' \<mapsto> (Null :: string authchecks, 9)]
        (authcheckCacheKey (route 1 ''/cats/7'' (Some ''bob'') [''userId'' \<mapsto> ''7''])) = None
   \<and> map_option fst
        (snd (snd (getauthchecksFromCache example_guard
                     (route 1 ''/cats'' (Some ''alice'') Map.empty) 0 Map.empty))
           (authcheckCacheKey (route 1 ''/cats'' (Some ''alice'') Map.empty)))
       = Some (Checks [pass_check, fail_check, pass_check])
   \<and> map_option fst
        (snd (snd (getauthchecksFromCache example_guard
                     (route 1 ''/cats/7'' (Some ''bob'') [''userId'' \<mapsto> ''7'']) 5
                     [''other'' \<mapsto> (Null, 9)]))
           (authcheckCacheKey (route 1 ''/cats/7'' (Some ''bob'') [''userId'' \<mapsto> ''7''])))
       = Some (Checks [pass_check, fail_check, pass_check])"
proof -
  let ?a = "route 1 ''/cats'' (Some ''alice'') Map.empty"
  let ?b = "route 1 ''/cats/7'' (Some ''bob'') [''userId'' \<mapsto> ''7'']"
  have h1: "reflector_get example_guard ''authorization'' (getHandler ?a)
              = reflector_get example_guard ''authorization'' (getHandler ?b)"
    by (simp add: example_defs)
  have h2: "reflector_get example_guard ''authorization'' (getClass ?a)
              = reflector_get example_guard ''authorization'' (getClass ?b)"
    by (simp add: example_defs)
  have h3: "cache_get 0 (Map.empty :: string authchecks cache_store) (authcheckCacheKey ?a) = None"
    by (simp add: cache_get_def)
  have h4: "cache_get 5 [''other'' \<mapsto> (Null :: string authchecks, 9)] (authcheckCacheKey ?b)
              = None"
    by (simp add: cache_get_def authcheckCacheKey_def)
  have h5: "fst (getauthcheck example_guard ?a) = Inr (Checks [pass_check, fail_check, pass_check])"
    by (simp add: example_defs getauthcheck_def)
  have h6: "fst (getauthchecksFromCache example_guard ?a 0 Map.empty)
              = Inr (Checks [pass_check, fail_check, pass_check])"
    by (simp add: example_defs getauthchecksFromCache_def getauthcheck_def wrap_def cache_get_def)
  show ?thesis
    using h1 h2 h3 h4 h5 h6
      getauthcheck_deterministic [OF h1 h2, where ?t1.0 = 0 and cacheA = Map.empty
        and ?t2.0 = 5 and cacheB = "[''other'' \<mapsto> (Null, 9)]"]
    by simp
qed




subsection \<open>Claims about the organization lookup\<close>

text \<open>
  C7, organization slug resolution. For a request with an \<^verbatim>\<open>organizationSlug\<close> route
  parameter for which the repository returns a record, the record's id is the
  \<^verbatim>\<open>orgIdForTargetResource\<close> of every rule invocation. When the parameter is absent
  or empty, or the repository finds no organization, every rule invocation gets
  \<^verbatim>\<open>undefined\<close> there, and the absence alone does not deny: a non-empty rule set whose
  rules all pass on that argument gives true. In either case the first rule of a non-empty
  rule set is in fact invoked with the resolved id.
\<close>

theorem organization_slug_resolution:
  assumes "getRequest ctx = Some req"
  shows "(params req ''organizationSlug'' = Some slug \<and> slug \<noteq> []
            \<and> organizationCache_findOne g slug = Inr (Some org)
          \<longrightarrow> fst (getOrgIdFromSlug g (params req ''organizationSlug''))
                = Inr (Some (organization_id org))
              \<and> (\<forall>n q. IsAuthorized n q \<in> set (fst (snd (canActivate g ctx now cache)))
                     \<longrightarrow> orgIdForTargetResource q = Some (organization_id org)))
         \<and> ((params req ''organizationSlug'' = None \<or> params req ''organizationSlug'' = Some []
             \<or> (params req ''organizationSlug'' = Some slug
                 \<and> organizationCache_findOne g slug = Inr None))
          \<longrightarrow> fst (getOrgIdFromSlug g (params req ''organizationSlug'')) = Inr None
              \<and> (\<forall>n q. IsAuthorized n q \<in> set (fst (snd (canActivate g ctx now cache)))
                     \<longrightarrow> orgIdForTargetResource q = None)
              \<and> (\<not> publicRouteRegex_test g (originalUrl req) \<and> authorization req = Some auth
                   \<and> fst (getauthchecksFromCache g ctx now cache) = Inr (Checks cs) \<and> cs \<noteq> []
                   \<and> (\<forall>c\<in>set cs.
                         isAuthorized c
                           \<lparr>requestingEntity = auth, orgIdForTargetResource = None,
                            userIdForTargetResource = params req ''userId''\<rparr> = Inr True)
                 \<longrightarrow> fst (canActivate g ctx now cache) = Inr True))
         \<and> (\<not> publicRouteRegex_test g (originalUrl req) \<and> authorization req = Some auth
              \<and> fst (getOrgIdFromSlug g (params req ''organizationSlug'')) = Inr orgId
              \<and> fst (getauthchecksFromCache g ctx now cache) = Inr (Checks cs) \<and> cs \<noteq> []
          \<longrightarrow> IsAuthorized (constructor_name (hd cs))
                  \<lparr>requestingEntity = auth, orgIdForTargetResource = orgId,
                   userIdForTargetResource = params req ''userId''\<rparr>
                \<in> set (fst (snd (canActivate g ctx now cache))))"
proof -
  have passed: "orgIdForTargetResource q = orgId"
    if "IsAuthorized n q \<in> set (fst (snd (canActivate g ctx now cache)))"
      and "fst (getOrgIdFromSlug g (params req ''organizationSlug'')) = Inr orgId"
    for n q orgId
    using canActivate_rule_params [OF that(1)] that(2) assms by auto
  have loop: "\<exists>r evs1 evs2 evs3 cache'.
                run_authchecks cs
                  \<lparr>requestingEntity = auth, orgIdForTargetResource = orgId,
                   userIdForTargetResource = params req ''userId''\<rparr> = (r, evs3)
                \<and> canActivate_try g ctx now cache =
                    (r,
                     [Log TraceLevel ''AuthorizationGuard.canActivate'',
                      Log DebugLevel ''AuthorizationGuard''] @ evs1 @ evs2 @ evs3
                       @ (if r = Inr True then [Log DebugLevel ''authcheck passed''] else []),
                     cache')"
    if l1: "\<not> publicRouteRegex_test g (originalUrl req)" and l2: "authorization req = Some auth"
      and l3: "fst (getOrgIdFromSlug g (params req ''organizationSlug'')) = Inr orgId"
      and l4: "fst (getauthchecksFromCache g ctx now cache) = Inr (Checks cs)" and l5: "cs \<noteq> []"
    for auth orgId cs
  proof -
    obtain evs1 where o: "getOrgIdFromSlug g (params req ''organizationSlug'') = (Inr orgId, evs1)"
      using l3 by (cases "getOrgIdFromSlug g (params req ''organizationSlug'')") auto
    obtain evs2 cache' where c: "getauthchecksFromCache g ctx now cache = (Inr (Checks cs), evs2, cache')"
      using l4 by (cases "getauthchecksFromCache g ctx now cache") auto
    obtain r evs3 where run: "run_authchecks cs
                                \<lparr>requestingEntity = auth, orgIdForTargetResource = orgId,
                                 userIdForTargetResource = params req ''userId''\<rparr> = (r, evs3)"
      by (cases "run_authchecks cs
                   \<lparr>requestingEntity = auth, orgIdForTargetResource = orgId,
                    userIdForTargetResource = params req ''userId''\<rparr>") auto
    show ?thesis
      using canActivate_try_loop [OF assms l1 l2 o c l5 run] run by blast
  qed
  have found: "fst (getOrgIdFromSlug g (params req ''organizationSlug''))
                 = Inr (Some (organization_id org))"
    if "params req ''organizationSlug'' = Some slug \<and> slug \<noteq> []
          \<and> organizationCache_findOne g slug = Inr (Some org)"
    using that getOrgIdFromSlug_found [of slug g org] by simp
  have absent: "fst (getOrgIdFromSlug g (params req ''organizationSlug'')) = Inr None"
    if "params req ''organizationSlug'' = None \<or> params req ''organizationSlug'' = Some []
          \<or> (params req ''organizationSlug'' = Some slug
              \<and> organizationCache_findOne g slug = Inr None)"
    using that getOrgIdFromSlug_absent [of "params req ''organizationSlug''" slug g] by simp
  have allow: "fst (canActivate g ctx now cache) = Inr True"
    if "fst (getOrgIdFromSlug g (params req ''organizationSlug'')) = Inr None"
      and "\<not> publicRouteRegex_test g (originalUrl req) \<and> authorization req = Some auth
           \<and> fst (getauthchecksFromCache g ctx now cache) = Inr (Checks cs) \<and> cs \<noteq> []
           \<and> (\<forall>c\<in>set cs.
                 isAuthorized c
                   \<lparr>requestingEntity = auth, orgIdForTargetResource = None,
                    userIdForTargetResource = params req ''userId''\<rparr> = Inr True)"
  proof -
    from loop [of auth None cs] that
    obtain r evs1 evs2 evs3 cache'
      where run: "run_authchecks cs
                    \<lparr>requestingEntity = auth, orgIdForTargetResource = None,
                     userIdForTargetResource = params req ''userId''\<rparr> = (r, evs3)"
        and tr: "fst (canActivate_try g ctx now cache) = r"
      by auto
    have "r = Inr True"
      using run run_authchecks_all_pass [of cs
          "\<lparr>requestingEntity = auth, orgIdForTargetResource = None,
            userIdForTargetResource = params req ''userId''\<rparr>"] that(2)
      by simp
    with tr show ?thesis using canActivate_allows_iff [of g ctx now cache] by simp
  qed
  have invoked: "IsAuthorized (constructor_name (hd cs))
                   \<lparr>requestingEntity = auth, orgIdForTargetResource = orgId,
                    userIdForTargetResource = params req ''userId''\<rparr>
                 \<in> set (fst (snd (canActivate g ctx now cache)))"
    if "\<not> publicRouteRegex_test g (originalUrl req) \<and> authorization req = Some auth
          \<and> fst (getOrgIdFromSlug g (params req ''organizationSlug'')) = Inr orgId
          \<and> fst (getauthchecksFromCache g ctx now cache) = Inr (Checks cs) \<and> cs \<noteq> []"
  proof -
    let ?p = "\<lparr>requestingEntity = auth, orgIdForTargetResource = orgId,
               userIdForTargetResource = params req ''userId''\<rparr>"
    from loop [of auth orgId cs] that
    obtain r evs1 evs2 evs3 cache'
      where run: "run_authchecks cs ?p = (r, evs3)"
        and tr: "canActivate_try g ctx now cache =
                   (r,
                    [Log TraceLevel ''AuthorizationGuard.canActivate'',
                     Log DebugLevel ''AuthorizationGuard''] @ evs1 @ evs2 @ evs3
                      @ (if r = Inr True then [Log DebugLevel ''authcheck passed''] else []),
                    cache')"
      by auto
    have "IsAuthorized (constructor_name (hd cs)) ?p \<in> set evs3"
      using run_authchecks_first [of cs ?p] that run by simp
    then have "IsAuthorized (constructor_name (hd cs)) ?p
                 \<in> set (fst (snd (canActivate_try g ctx now cache)))"
      using tr by simp
    then show ?thesis using canActivate_try_events_kept [of g ctx now cache] by blast
  qed
  show ?thesis
    using passed found absent allow invoked by blast
qed

theorem organization_slug_resolution_witness:
  "getRequest (route 4 ''/orgs/acme/cats'' (Some ''alice'') [''organizationSlug'' \<mapsto> ''acme''])
     = Some (example_request ''/orgs/acme/cats'' (Some ''alice'') [''organizationSlug'' \<mapsto> ''acme''])
   \<and> params (example_request ''/orgs/acme/cats'' (Some ''alice'') [''organizationSlug'' \<mapsto> ''acme''])
        ''organizationSlug'' = Some ''acme''
   \<and> ''acme'' \<noteq> []
   \<and> organizationCache_findOne example_guard ''acme'' = Inr (Some \<lparr>organization_id = ''org_1''\<rparr>)
   \<and> fst (getOrgIdFromSlug example_guard
             (params (example_request ''/orgs/acme/cats'' (Some ''alice'')
                        [''organizationSlug'' \<mapsto> ''acme'']) ''organizationSlug''))
       = Inr (Some ''org_1'')
   \<and> IsAuthorized ''PassCheck''
         \<lparr>requestingEntity = ''alice'', orgIdForTargetResource = Some ''org_1'',
          userIdForTargetResource = None\<rparr>
       \<in> set (fst (snd (canActivate example_guard
                  (route 4 ''/orgs/acme/cats'' (Some ''alice'') [''organizationSlug'' \<mapsto> ''acme''])
                  0 Map.empty)))
   \<and> IsAuthorized ''OrgCheck''
         \<lparr>requestingEntity = ''alice'', orgIdForTargetResource = Some ''org_1'',
          userIdForTargetResource = None\<rparr>
       \<in> set (fst (snd (canActivate example_guard
                  (route 4 ''/orgs/acme/cats'' (Some ''alice'') [''organizationSlug'' \<mapsto> ''acme''])
                  0 Map.empty)))
   \<and> fst (canActivate example_guard
             (route 4 ''/orgs/acme/cats'' (Some ''alice'') [''organizationSlug'' \<mapsto> ''acme''])
             0 Map.empty) = Inr True
   \<and> getRequest (route 6 ''/orgs/nope/cats'' (Some ''alice'') [''organizationSlug'' \<mapsto> ''nope''])
       = Some (example_request ''/orgs/nope/cats'' (Some ''alice'') [''organizationSlug'' \<mapsto> ''nope''])
   \<and> params (example_request ''/orgs/nope/cats'' (Some ''alice'') [''organizationSlug'' \<mapsto> ''nope''])
        ''organizationSlug'' = Some ''nope''
   \<and> organizationCache_findOne example_guard ''nope'' = Inr None
   \<and> fst (getOrgIdFromSlug example_guard
             (params (example_request ''/orgs/nope/cats'' (Some ''alice'')
                        [''organizationSlug'' \<mapsto> ''nope'']) ''organizationSlug''))
       = Inr None
   \<and> IsAuthorized ''PassCheck''
         \<lparr>requestingEntity = ''alice'', orgIdForTargetResource = None,
          userIdForTargetResource = None\<rparr>
       \<in> set (fst (snd (canActivate example_guard
                  (route 6 ''/orgs/nope/cats'' (Some ''alice'') [''organizationSlug'' \<mapsto> ''nope''])
                  0 Map.empty)))
   \<and> fst (canActivate example_guard
             (route 6 ''/orgs/nope/cats'' (Some ''alice'') [''organizationSlug'' \<mapsto> ''nope''])
             0 Map.empty) = Inr True"
proof -
  let ?ra = "example_request ''/orgs/acme/cats'' (Some ''alice'') [''organizationSlug'' \<mapsto> ''acme'']"
  let ?ca = "route 4 ''/orgs/acme/cats'' (Some ''alice'') [''organizationSlug'' \<mapsto> ''acme'']"
  let ?rn = "example_request ''/orgs/nope/cats'' (Some ''alice'') [''organizationSlug'' \<mapsto> ''nope'']"
  let ?cn = "route 6 ''/orgs/nope/cats'' (Some ''alice'') [''organizationSlug'' \<mapsto> ''nope'']"
  have a1: "getRequest ?ca = Some ?ra"
    by (simp add: example_defs)
  have a2: "params ?ra ''organizationSlug'' = Some ''acme''"
    by (simp add: example_defs)
  have a3: "''acme'' \<noteq> []"
    by simp
  have a4: "organizationCache_findOne example_guard ''acme''
              = Inr (Some \<lparr>organization_id = ''org_1''\<rparr>)"
    by (simp add: example_defs)
  have a5: "IsAuthorized ''OrgCheck''
              \<lparr>requestingEntity = ''alice'', orgIdForTargetResource = Some ''org_1'',
               userIdForTargetResource = None\<rparr>
            \<in> set (fst (snd (canActivate example_guard ?ca 0 Map.empty)))"
    by (simp add: example_defs method_defs)
  have a6: "fst (canActivate example_guard ?ca 0 Map.empty) = Inr True"
    by (simp add: example_defs method_defs)
  have n1: "getRequest ?cn = Some ?rn"
    by (simp add: example_defs)
  have n2: "params ?rn ''organizationSlug'' = Some ''nope''"
    by (simp add: example_defs)
  have n3: "organizationCache_findOne example_guard ''nope'' = Inr None"
    by (simp add: example_defs)
  have n4: "\<not> publicRouteRegex_test example_guard (originalUrl ?rn)"
    by (simp add: example_defs)
  have n5: "authorization ?rn = Some ''alice''"
    by (simp add: example_defs)
  have n6: "fst (getauthchecksFromCache example_guard ?cn 0 Map.empty) = Inr (Checks [pass_check])"
    by (simp add: example_defs getauthchecksFromCache_def getauthcheck_def wrap_def cache_get_def)
  have n7: "[pass_check] \<noteq> []"
    by simp
  have n8: "\<forall>c\<in>set [pass_check].
              isAuthorized c
                \<lparr>requestingEntity = ''alice'', orgIdForTargetResource = None,
                 userIdForTargetResource = params ?rn ''userId''\<rparr> = Inr True"
    by (simp add: pass_check_def)
  have n9: "fst (getOrgIdFromSlug example_guard (params ?rn ''organizationSlug'')) = Inr None"
    by (simp add: example_defs getOrgIdFromSlug_def)
  have n10: "constructor_name (hd [pass_check]) = ''PassCheck'' \<and> params ?rn ''userId'' = None"
    by (simp add: example_defs)
  note acme = organization_slug_resolution [OF a1, where slug = "''acme''"
      and org = "\<lparr>organization_id = ''org_1''\<rparr>" and g = example_guard and now = 0
      and cache = Map.empty and auth = "''alice''" and cs = "[pass_check, org_check]"
      and orgId = "Some ''org_1''"]
  note nope = organization_slug_resolution [OF n1, where slug = "''nope''" and g = example_guard
      and now = 0 and cache = Map.empty and auth = "''alice''" and cs = "[pass_check]"
      and orgId = None]
  have a7: "\<not> publicRouteRegex_test example_guard (originalUrl ?ra)"
    by (simp add: example_defs)
  have a8: "authorization ?ra = Some ''alice''"
    by (simp add: example_defs)
  have a9: "fst (getauthchecksFromCache example_guard ?ca 0 Map.empty)
              = Inr (Checks [pass_check, org_check])"
    by (simp add: example_defs getauthchecksFromCache_def getauthcheck_def wrap_def cache_get_def)
  have a10: "[pass_check, org_check] \<noteq> []"
    by simp
  have a11: "constructor_name (hd [pass_check, org_check]) = ''PassCheck''
             \<and> params ?ra ''userId'' = None
             \<and> organization_id \<lparr>organization_id = ''org_1''\<rparr> = ''org_1''"
    by (simp add: example_defs)
  have acme_org: "fst (getOrgIdFromSlug example_guard (params ?ra ''organizationSlug''))
                    = Inr (Some ''org_1'')"
    using acme a2 a3 a4 a11 by simp
  have acme_invoked: "IsAuthorized ''PassCheck''
                        \<lparr>requestingEntity = ''alice'', orgIdForTargetResource = Some ''org_1'',
                         userIdForTargetResource = None\<rparr>
                      \<in> set (fst (snd (canActivate example_guard ?ca 0 Map.empty)))"
    using acme a7 a8 a9 a10 a11 acme_org by simp
  have nope_org: "fst (getOrgIdFromSlug example_guard (params ?rn ''organizationSlug'')) = Inr None"
    using nope n2 n3 by blast
  have nope_allow: "fst (canActivate example_guard ?cn 0 Map.empty) = Inr True"
    using nope n2 n3 n4 n5 n6 n7 n8 by blast
  have nope_invoked: "IsAuthorized ''PassCheck''
                        \<lparr>requestingEntity = ''alice'', orgIdForTargetResource = None,
                         userIdForTargetResource = None\<rparr>
                      \<in> set (fst (snd (canActivate example_guard ?cn 0 Map.empty)))"
    using nope n4 n5 n6 n7 n9 n10 by simp
  show ?thesis
    using a1 a2 a3 a4 a5 a6 n1 n2 n3 acme_org acme_invoked nope_org nope_allow nope_invoked
    by blast
qed

subsection \<open>Claims about the rule-set cache\<close>

lemma authcheckCacheKey_cong:
  "getClass ctx2 = getClass ctx1 \<Longrightarrow> getHandler ctx2 = getHandler ctx1
     \<Longrightarrow> authcheckCacheKey ctx2 = authcheckCacheKey ctx1"
  by (simp add: authcheckCacheKey_def)

lemma cache_get_later:
  "cache_get t cache key = None \<Longrightarrow> t \<le> t' \<Longrightarrow> cache_get t' cache key = None"
  by (auto simp: cache_get_def split: option.splits if_splits)

lemma getauthcheck_reads_le:
  "getHandler ctx \<noteq> getClass ctx
     \<Longrightarrow> length (filter (is_metadata_read t) (snd (getauthcheck g ctx))) \<le> 1"
  by (auto simp: getauthcheck_def split: sum.splits)

lemma getauthchecksFromCache_reads_le:
  assumes "getHandler ctx \<noteq> getClass ctx"
  shows "length (filter (is_metadata_read t)
                   (fst (snd (getauthchecksFromCache g ctx now cache)))) \<le> 1"
proof (cases "cache_get now cache (authcheckCacheKey ctx)")
  case None
  then show ?thesis
    using getauthchecksFromCache_miss [of now cache ctx g] getauthcheck_reads_le [OF assms, of t g]
    by simp
next
  case (Some v)
  then show ?thesis using getauthchecksFromCache_hit [of now cache ctx v g] by simp
qed

lemma decision_reads_at_most_one:
  assumes "getHandler ctx \<noteq> getClass ctx"
  shows "length (filter (is_metadata_read t) (fst (snd (canActivate g ctx now cache)))) \<le> 1"
  using canActivate_resolution_cases [of g ctx now cache t]
    getauthchecksFromCache_reads_le [OF assms, of t g now cache]
  by auto

lemma decision_reads_none_on_hit:
  assumes "cache_get now cache (authcheckCacheKey ctx) = Some v"
  shows "filter (is_metadata_read t) (fst (snd (canActivate g ctx now cache))) = []"
  using canActivate_resolution_cases [of g ctx now cache t]
    getauthchecksFromCache_hit [OF assms, of g]
  by auto

lemma decision_expired_after_a_week:
  assumes "\<forall>v e. cache (authcheckCacheKey ctx) = Some (v, e) \<longrightarrow> e \<le> t1 + 604800"
    and "t1 + 604800 < t2"
  shows "cache_get t2 (snd (snd (canActivate g ctx t1 cache))) (authcheckCacheKey ctx) = None"
proof -
  have unchanged: "cache_get t2 cache (authcheckCacheKey ctx) = None"
    using assms by (fastforce simp: cache_get_def split: option.splits)
  have populated: "cache_get t2 (snd (snd (getauthchecksFromCache g ctx t1 cache)))
                     (authcheckCacheKey ctx) = None"
  proof (cases "cache_get t1 cache (authcheckCacheKey ctx)")
    case None
    then show ?thesis
      using getauthchecksFromCache_miss [of t1 cache ctx g] unchanged assms(2)
      by (cases "fst (getauthcheck g ctx)") (auto simp: cache_get_def)
  next
    case (Some v)
    then show ?thesis
      using getauthchecksFromCache_hit [of t1 cache ctx v g] unchanged by simp
  qed
  show ?thesis
    using canActivate_resolution_cases [of g ctx t1 cache "getHandler ctx"] unchanged populated
    by auto
qed

lemma authcheckCacheKey_handler:
  "fn_source (getClass a) = fn_source (getClass b)
     \<Longrightarrow> (authcheckCacheKey a = authcheckCacheKey b)
           = (fn_source (getHandler a) = fn_source (getHandler b))"
  by (simp add: authcheckCacheKey_def)

text \<open>
  C8, rule-set caching with a one-week time to live. Resolution is a single call of the
  cache's \<open>wrap\<close> with a time to live of \<open>60 * 60 * 24 * 7 = 604800\<close>
  seconds, under the key \<^verbatim>\<open>AuthorizationGuard-authcheck?class=C&handler=H)\<close> where
  \<^verbatim>\<open>C\<close> and \<^verbatim>\<open>H\<close> are the source texts of the class and of the handler: two
  contexts with the same class and handler use the same key, and under one class text
  two handlers share a key exactly when their texts are equal. Every decision that gets as
  far as resolution makes that call. Take two decisions on the same handler, the second at
  time \<open>t2\<close> on the cache left by the first at time \<open>t1\<close>. If computing the rule
  set does not throw and \<open>t1 \<le> t2 < t1 + 604800\<close>, no metadata value (the handler's or the
  controller's) is read more than once over both decisions, and when the first decision
  computed the rule set the second reads no metadata at all. If no entry under the key
  outlives \<open>t1 + 604800\<close> and \<open>t2 > t1 + 604800\<close>, a second decision that gets as far as
  resolution reads the handler's metadata again, exactly once. When a metadata lookup
  throws nothing is stored and the next decision computes again, as the example
  further below shows.
\<close>

theorem rule_set_cached_for_one_week:
  assumes "getClass ctx2 = getClass ctx1"
    and "getHandler ctx2 = getHandler ctx1"
    and "getHandler ctx1 \<noteq> getClass ctx1"
    and "cache1 = snd (snd (canActivate g ctx1 t1 cache0))"
    and "evs1 = fst (snd (canActivate g ctx1 t1 cache0))"
    and "evs2 = fst (snd (canActivate g ctx2 t2 cache1))"
  shows "getauthchecksFromCache g ctx1 t1 cache0
           = (case wrap (authcheckCacheKey ctx1) (\<lambda>_. getauthcheck g ctx1) 604800 t1 cache0 of
                (r, evs, cache') \<Rightarrow> (r, Wrap (authcheckCacheKey ctx1) 604800 # evs, cache'))
         \<and> authcheckCacheKey ctx1
             = ''AuthorizationGuard-authcheck?class='' @ fn_source (getClass ctx1)
                 @ ''&handler='' @ fn_source (getHandler ctx1) @ '')''
         \<and> authcheckCacheKey ctx2 = authcheckCacheKey ctx1
         \<and> (fn_source (getClass ctx3) = fn_source (getClass ctx1)
            \<longrightarrow> (authcheckCacheKey ctx3 = authcheckCacheKey ctx1)
                  = (fn_source (getHandler ctx3) = fn_source (getHandler ctx1)))
         \<and> (getRequest ctx2 = Some req2 \<and> \<not> publicRouteRegex_test g (originalUrl req2)
              \<and> authorization req2 = Some auth
              \<and> fst (getOrgIdFromSlug g (params req2 ''organizationSlug'')) = Inr orgId
            \<longrightarrow> Wrap (authcheckCacheKey ctx1) 604800 \<in> set evs2)
         \<and> (fst (getauthcheck g ctx1) = Inr v
              \<and> t1 \<le> t2 \<and> t2 < t1 + 604800
            \<longrightarrow> length (filter (is_metadata_read t) (evs1 @ evs2)) \<le> 1
                \<and> (filter (is_metadata_read (getHandler ctx1)) evs1 \<noteq> []
                     \<longrightarrow> (\<forall>key t'. ReflectorGet key t' \<notin> set evs2)))
         \<and> ((\<forall>v e. cache0 (authcheckCacheKey ctx1) = Some (v, e) \<longrightarrow> e \<le> t1 + 604800)
              \<and> t1 + 604800 < t2
              \<and> getRequest ctx2 = Some req2 \<and> \<not> publicRouteRegex_test g (originalUrl req2)
              \<and> authorization req2 = Some auth
              \<and> fst (getOrgIdFromSlug g (params req2 ''organizationSlug'')) = Inr orgId
            \<longrightarrow> length (filter (is_metadata_read (getHandler ctx1)) evs2) = 1)"
proof (intro conjI impI)
  show "getauthchecksFromCache g ctx1 t1 cache0
          = (case wrap (authcheckCacheKey ctx1) (\<lambda>_. getauthcheck g ctx1) 604800 t1 cache0 of
               (r, evs, cache') \<Rightarrow> (r, Wrap (authcheckCacheKey ctx1) 604800 # evs, cache'))"
    by (simp add: getauthchecksFromCache_def)
next
  show "authcheckCacheKey ctx1
          = ''AuthorizationGuard-authcheck?class='' @ fn_source (getClass ctx1)
              @ ''&handler='' @ fn_source (getHandler ctx1) @ '')''"
    by (simp add: authcheckCacheKey_def)
next
  show key: "authcheckCacheKey ctx2 = authcheckCacheKey ctx1"
    using assms(1,2) by (rule authcheckCacheKey_cong)
  have distinct2: "getHandler ctx2 \<noteq> getClass ctx2"
    using assms(1-3) by simp
  {
    assume "fn_source (getClass ctx3) = fn_source (getClass ctx1)"
    then show "(authcheckCacheKey ctx3 = authcheckCacheKey ctx1)
                 = (fn_source (getHandler ctx3) = fn_source (getHandler ctx1))"
      by (rule authcheckCacheKey_handler)
  }
  {
    assume r: "getRequest ctx2 = Some req2 \<and> \<not> publicRouteRegex_test g (originalUrl req2)
                 \<and> authorization req2 = Some auth
                 \<and> fst (getOrgIdFromSlug g (params req2 ''organizationSlug'')) = Inr orgId"
    have "Wrap (authcheckCacheKey ctx2) 604800
            \<in> set (fst (snd (canActivate_try g ctx2 t2 cache1)))"
      using canActivate_try_wrap_event [of ctx2 req2 g auth orgId t2 cache1] r by simp
    then show "Wrap (authcheckCacheKey ctx1) 604800 \<in> set evs2"
      using canActivate_try_events_kept [of g ctx2 t2 cache1] key assms(6) by auto
  }
  {
    assume a: "fst (getauthcheck g ctx1) = Inr v \<and> t1 \<le> t2 \<and> t2 < t1 + 604800"
    have second: "length (filter (is_metadata_read t) evs2) \<le> 1" for t
      using decision_reads_at_most_one [OF distinct2, of t g t2 cache1] assms(6) by simp
    have first: "length (filter (is_metadata_read t) evs1) \<le> 1" for t
      using decision_reads_at_most_one [OF assms(3), of t g t1 cache0] assms(5) by simp
    have cached: "filter (is_metadata_read t') evs2 = []"
      if nonzero: "filter (is_metadata_read t) evs1 \<noteq> []" for t t'
    proof -
      from nonzero have computed:
        "cache1 = snd (snd (getauthchecksFromCache g ctx1 t1 cache0))
         \<and> filter (is_metadata_read t) (fst (snd (getauthchecksFromCache g ctx1 t1 cache0)))
               \<noteq> []"
        using canActivate_resolution_cases [of g ctx1 t1 cache0 t] assms(4,5) by auto
      then have miss: "cache_get t1 cache0 (authcheckCacheKey ctx1) = None"
        using getauthchecksFromCache_hit [of t1 cache0 ctx1 _ g]
        by (cases "cache_get t1 cache0 (authcheckCacheKey ctx1)") auto
      have v: "fst (getauthcheck g ctx1) = Inr v"
        using a by simp
      have "cache1 = cache0(authcheckCacheKey ctx1 \<mapsto> (v, t1 + 604800))"
        using computed getauthchecksFromCache_miss [OF miss, of g] v by simp
      then have "cache_get t2 cache1 (authcheckCacheKey ctx2) = Some v"
        using a key by (simp add: cache_get_def)
      then show ?thesis
        using decision_reads_none_on_hit [of t2 cache1 ctx2 v t' g] assms(6) by simp
    qed
    have "length (filter (is_metadata_read t) evs1) = 0
          \<or> length (filter (is_metadata_read t) evs2) = 0"
      using cached [of t t] by auto
    with first [of t] second [of t]
    show "length (filter (is_metadata_read t) (evs1 @ evs2)) \<le> 1" by auto
    {
      assume nz: "filter (is_metadata_read (getHandler ctx1)) evs1 \<noteq> []"
      have "ReflectorGet key t' \<notin> set evs2" for key t'
      proof
        assume "ReflectorGet key t' \<in> set evs2"
        then have "ReflectorGet key t' \<in> set (filter (is_metadata_read t') evs2)" by simp
        then show False using cached [OF nz, of t'] by simp
      qed
      then show "\<forall>key t'. ReflectorGet key t' \<notin> set evs2" by blast
    }
  }
  {
    assume b: "(\<forall>v e. cache0 (authcheckCacheKey ctx1) = Some (v, e) \<longrightarrow> e \<le> t1 + 604800)
                 \<and> t1 + 604800 < t2
                 \<and> getRequest ctx2 = Some req2 \<and> \<not> publicRouteRegex_test g (originalUrl req2)
                 \<and> authorization req2 = Some auth
                 \<and> fst (getOrgIdFromSlug g (params req2 ''organizationSlug'')) = Inr orgId"
    have "cache_get t2 cache1 (authcheckCacheKey ctx1) = None"
      using decision_expired_after_a_week [of cache0 ctx1 t1 t2 g] b assms(4) by simp
    then have miss: "cache_get t2 cache1 (authcheckCacheKey ctx2) = None"
      using key by simp
    have "filter (is_metadata_read (getHandler ctx2)) evs2
            = filter (is_metadata_read (getHandler ctx2))
                (fst (snd (getauthchecksFromCache g ctx2 t2 cache1)))"
      using canActivate_try_resolution [of ctx2 req2 g auth orgId t2 cache1 "getHandler ctx2"]
        canActivate_reads [of "getHandler ctx2" g ctx2 t2 cache1] b assms(6)
      by simp
    then show "length (filter (is_metadata_read (getHandler ctx1)) evs2) = 1"
      using getauthchecksFromCache_reads [OF distinct2, of g t2 cache1] miss assms(2) by simp
  }
qed

theorem rule_set_cached_for_one_week_witness:
  "getClass (route 1 ''/cats/7'' (Some ''bob'') [''userId'' \<mapsto> ''7''])
     = getClass (route 1 ''/cats'' (Some ''alice'') Map.empty)
   \<and> getHandler (route 1 ''/cats/7'' (Some ''bob'') [''userId'' \<mapsto> ''7''])
       = getHandler (route 1 ''/cats'' (Some ''alice'') Map.empty)
   \<and> getHandler (route 1 ''/cats'' (Some ''alice'') Map.empty)
       \<noteq> getClass (route 1 ''/cats'' (Some ''alice'') Map.empty)
   \<and> authcheckCacheKey (route 1 ''/cats'' (Some ''alice'') Map.empty)
       = ''AuthorizationGuard-authcheck?class=class CatsController { }&handler=async handle() { })''
   \<and> fst (getauthcheck example_guard (route 1 ''/cats'' (Some ''alice'') Map.empty))
       = Inr (Checks [pass_check, fail_check, pass_check])
   \<and> (100 :: nat) \<le> 200 \<and> (200 :: nat) < 100 + 604800
   \<and> length (filter (is_metadata_read (getHandler (route 1 ''/cats'' (Some ''alice'') Map.empty)))
        (fst (snd (canActivate example_guard (route 1 ''/cats'' (Some ''alice'') Map.empty)
                     100 Map.empty)))) = 1
   \<and> length (filter (is_metadata_read (getHandler (route 1 ''/cats'' (Some ''alice'') Map.empty)))
        (fst (snd (canActivate example_guard (route 1 ''/cats'' (Some ''alice'') Map.empty)
                     100 Map.empty))
         @ fst (snd (canActivate example_guard
                       (route 1 ''/cats/7'' (Some ''bob'') [''userId'' \<mapsto> ''7'']) 200
                       (snd (snd (canActivate example_guard
                                    (route 1 ''/cats'' (Some ''alice'') Map.empty)
                                    100 Map.empty))))))) \<le> 1
   \<and> (Map.empty :: string authchecks cache_store)
        (authcheckCacheKey (route 1 ''/cats'' (Some ''alice'') Map.empty)) = None
   \<and> (100 :: nat) + 604800 < 700000
   \<and> getRequest (route 1 ''/cats/7'' (Some ''bob'') [''userId'' \<mapsto> ''7''])
       = Some (example_request ''/cats/7'' (Some ''bob'') [''userId'' \<mapsto> ''7''])
   \<and> \<not> publicRouteRegex_test example_guard
          (originalUrl (example_request ''/cats/7'' (Some ''bob'') [''userId'' \<mapsto> ''7'']))
   \<and> authorization (example_request ''/cats/7'' (Some ''bob'') [''userId'' \<mapsto> ''7''])
       = Some ''bob''
   \<and> fst (getOrgIdFromSlug example_guard
             (params (example_request ''/cats/7'' (Some ''bob'') [''userId'' \<mapsto> ''7''])
                ''organizationSlug'')) = Inr None
   \<and> Wrap ''AuthorizationGuard-authcheck?class=class CatsController { }&handler=async handle() { })''
        604800
       \<in> set (fst (snd (canActivate example_guard
                  (route 1 ''/cats/7'' (Some ''bob'') [''userId'' \<mapsto> ''7'']) 700000
                  (snd (snd (canActivate example_guard
                               (route 1 ''/cats'' (Some ''alice'') Map.empty)
                               100 Map.empty))))))
   \<and> length (filter (is_metadata_read (getHandler (route 1 ''/cats'' (Some ''alice'') Map.empty)))
        (fst (snd (canActivate example_guard
                     (route 1 ''/cats/7'' (Some ''bob'') [''userId'' \<mapsto> ''7'']) 700000
                     (snd (snd (canActivate example_guard
                                  (route 1 ''/cats'' (Some ''alice'') Map.empty)
                                  100 Map.empty))))))) = 1"
proof -
  let ?c1 = "route 1 ''/cats'' (Some ''alice'') Map.empty"
  let ?c2 = "route 1 ''/cats/7'' (Some ''bob'') [''userId'' \<mapsto> ''7'']"
  let ?r2 = "example_request ''/cats/7'' (Some ''bob'') [''userId'' \<mapsto> ''7'']"
  have h1: "getClass ?c2 = getClass ?c1"
    by (simp add: example_defs)
  have h2: "getHandler ?c2 = getHandler ?c1"
    by (simp add: example_defs)
  have h3: "getHandler ?c1 \<noteq> getClass ?c1"
    by (simp add: example_defs)
  have h4: "fst (getauthcheck example_guard ?c1)
              = Inr (Checks [pass_check, fail_check, pass_check])"
    by (simp add: example_defs getauthcheck_def)
  have h6: "(100 :: nat) \<le> 200 \<and> (200 :: nat) < 100 + 604800"
    by simp
  have h7: "(Map.empty :: string authchecks cache_store) (authcheckCacheKey ?c1) = None"
    by simp
  have h7': "\<forall>v e. (Map.empty :: string authchecks cache_store) (authcheckCacheKey ?c1)
                     = Some (v, e) \<longrightarrow> e \<le> 100 + 604800"
    by simp
  have h8: "(100 :: nat) + 604800 < 700000"
    by simp
  have h9: "getRequest ?c2 = Some ?r2"
    by (simp add: example_defs)
  have h10: "\<not> publicRouteRegex_test example_guard (originalUrl ?r2)"
    by (simp add: example_defs)
  have h11: "authorization ?r2 = Some ''bob''"
    by (simp add: example_defs)
  have h12: "fst (getOrgIdFromSlug example_guard (params ?r2 ''organizationSlug'')) = Inr None"
    by (simp add: example_defs getOrgIdFromSlug_def)
  have h13: "''AuthorizationGuard-authcheck?class='' @ fn_source (getClass ?c1)
               @ ''&handler='' @ fn_source (getHandler ?c1) @ '')''
             = ''AuthorizationGuard-authcheck?class=class CatsController { }&handler=async handle() { })''"
    by (simp add: example_defs)
  have first: "length (filter (is_metadata_read (getHandler ?c1))
                 (fst (snd (canActivate example_guard ?c1 100 Map.empty)))) = 1"
    by (simp add: example_defs method_defs)
  note within = rule_set_cached_for_one_week [OF h1 h2 h3 refl refl refl,
      where g = example_guard and ?t1.0 = 100 and ?t2.0 = 200 and ?cache0.0 = Map.empty
        and v = "Checks [pass_check, fail_check, pass_check]" and t = "getHandler ?c1"]
  note after = rule_set_cached_for_one_week [OF h1 h2 h3 refl refl refl,
      where g = example_guard and ?t1.0 = 100 and ?t2.0 = 700000 and ?cache0.0 = Map.empty
        and ?req2.0 = ?r2 and auth = "''bob''" and orgId = None]
  have key: "authcheckCacheKey ?c1
               = ''AuthorizationGuard-authcheck?class=class CatsController { }&handler=async handle() { })''"
  proof -
    have "authcheckCacheKey ?c1
            = ''AuthorizationGuard-authcheck?class='' @ fn_source (getClass ?c1)
                @ ''&handler='' @ fn_source (getHandler ?c1) @ '')''"
      using within by blast
    then show ?thesis using h13 by (rule trans)
  qed
  have once: "length (filter (is_metadata_read (getHandler ?c1))
                (fst (snd (canActivate example_guard ?c1 100 Map.empty))
                 @ fst (snd (canActivate example_guard ?c2 200
                               (snd (snd (canActivate example_guard ?c1 100 Map.empty)))))))
              \<le> 1"
    using within h4 h6 by blast
  have wrapped: "Wrap (authcheckCacheKey ?c1) 604800
                   \<in> set (fst (snd (canActivate example_guard ?c2 700000
                                (snd (snd (canActivate example_guard ?c1 100 Map.empty))))))"
    using after h9 h10 h11 h12 by blast
  have again: "length (filter (is_metadata_read (getHandler ?c1))
                 (fst (snd (canActivate example_guard ?c2 700000
                              (snd (snd (canActivate example_guard ?c1 100 Map.empty)))))))
               = 1"
    using after h7' h8 h9 h10 h11 h12 by blast
  show ?thesis
    using h1 h2 h3 h4 h6 h7 h8 h9 h10 h11 h12 first once again key wrapped [unfolded key]
    by blast
qed

text \<open>
  A handler whose metadata lookup throws: the computation fails, nothing is stored, and a
  second decision on the same handler ten seconds later reads the handler's metadata again.
  Both decisions are denied.
\<close>

theorem rule_set_cached_for_one_week_counterexample:
  "(0 :: nat) \<le> 10 \<and> (10 :: nat) < 0 + 604800
   \<and> getHandler (route 7 ''/cats'' (Some ''alice'') Map.empty)
       \<noteq> getClass (route 7 ''/cats'' (Some ''alice'') Map.empty)
   \<and> reflector_get example_guard ''authorization''
        (getHandler (route 7 ''/cats'' (Some ''alice'') Map.empty))
       = Inl (Thrown ''metadata unavailable'')
   \<and> fst (canActivate example_guard (route 7 ''/cats'' (Some ''alice'') Map.empty) 0 Map.empty)
       = Inr False
   \<and> snd (snd (canActivate example_guard (route 7 ''/cats'' (Some ''alice'') Map.empty) 0
                  Map.empty)) = Map.empty
   \<and> length (filter (is_metadata_read (getHandler (route 7 ''/cats'' (Some ''alice'') Map.empty)))
        (fst (snd (canActivate example_guard (route 7 ''/cats'' (Some ''alice'') Map.empty)
                     0 Map.empty))
         @ fst (snd (canActivate example_guard (route 7 ''/cats'' (Some ''alice'') Map.empty) 10
                       (snd (snd (canActivate example_guard
                                    (route 7 ''/cats'' (Some ''alice'') Map.empty)
                                    0 Map.empty))))))) = 2"
proof -
  let ?c = "route 7 ''/cats'' (Some ''alice'') Map.empty"
  have d: "canActivate example_guard ?c now Map.empty
             = (Inr False,
                [Log TraceLevel ''AuthorizationGuard.canActivate'',
                 Log DebugLevel ''AuthorizationGuard'',
                 Log DebugLevel ''organizationSlug not found'',
                 Wrap (authcheckCacheKey ?c) 604800,
                 ReflectorGet ''authorization'' (getHandler ?c),
                 Log ErrorLevel ''Error in ResourceGuard''],
                Map.empty)" for now
    by (simp add: example_defs canActivate_def canActivate_try_def getOrgIdFromSlug_def
          getauthchecksFromCache_def getauthcheck_def wrap_def cache_get_def)
  have "getHandler ?c \<noteq> getClass ?c"
    by (simp add: example_defs)
  moreover have "reflector_get example_guard ''authorization'' (getHandler ?c)
                   = Inl (Thrown ''metadata unavailable'')"
    by (simp add: example_defs)
  ultimately show ?thesis
    by (simp add: d)
qed

end
